theory Spec2Isabelle
  imports Complex_Main "HOL-Library.Log_Nat"
begin

section \<open>JavaScript values\<close>

text \<open>
  Job payloads, handler results and thrown values are untyped in the source (\<open>any\<close>,
  \<open>unknown\<close>, \<open>Record<string, unknown>\<close>). They are modelled as JSON values: \<open>undefined\<close>,
  \<open>null\<close>, booleans, numbers, strings, arrays and plain objects, so no property is a
  function. Numbers here are integers. An object is the list of its own properties in
  insertion order.
\<close>

datatype jsval =
    JUndefined
  | JNull
  | JBool bool
  | JNum int
  | JStr string
  | JArr "jsval list"
  | JObj "(string \<times> jsval) list"

text \<open>
  The text of the message of a \<open>TypeError\<close> that the engine raises, and the \<open>stack\<close> of
  an error object, are the engine's own. They are parameters of the model: for the
  expression that raises or creates the error (named by its source text), the message
  of the \<open>TypeError\<close> and the stack trace.
\<close>

record Engine =
  typeErrorMessage :: "string \<Rightarrow> string"
  stackTrace :: "string \<Rightarrow> string"

definition typeError :: "Engine \<Rightarrow> string \<Rightarrow> jsval" where
  "typeError eng site =
     JObj [(''name'', JStr ''TypeError''), (''message'', JStr (typeErrorMessage eng site)),
           (''stack'', JStr (stackTrace eng site))]"

definition newError :: "Engine \<Rightarrow> string \<Rightarrow> string \<Rightarrow> jsval" where
  "newError eng site m =
     JObj [(''name'', JStr ''Error''), (''message'', JStr m),
           (''stack'', JStr (stackTrace eng site))]"

text \<open>
  The operations of the language that the scheduler applies to such values. \<open>property\<close>
  is a property read on a value that is neither \<open>null\<close> nor \<open>undefined\<close>, for the
  property names the scheduler reads (none of them is a built-in property of strings or
  arrays). A read or a destructuring of \<open>null\<close> or \<open>undefined\<close> throws a \<open>TypeError\<close>.
  Strings are lists of characters (ASCII).
\<close>

definition isNullish :: "jsval \<Rightarrow> bool" where
  "isNullish v = (v = JUndefined \<or> v = JNull)"

fun truthy :: "jsval \<Rightarrow> bool" where
  "truthy JUndefined = False"
| "truthy JNull = False"
| "truthy (JBool b) = b"
| "truthy (JNum n) = (n \<noteq> 0)"
| "truthy (JStr s) = (s \<noteq> [])"
| "truthy (JArr xs) = True"
| "truthy (JObj kvs) = True"

fun property :: "jsval \<Rightarrow> string \<Rightarrow> jsval" where
  "property (JObj kvs) k = (case map_of kvs k of None \<Rightarrow> JUndefined | Some v \<Rightarrow> v)"
| "property v k = JUndefined"

definition destructure :: "Engine \<Rightarrow> string \<Rightarrow> jsval \<Rightarrow> jsval + jsval" where
  "destructure eng site v = (if isNullish v then Inl (typeError eng site) else Inr v)"

definition getProp :: "Engine \<Rightarrow> string \<Rightarrow> jsval \<Rightarrow> string \<Rightarrow> jsval + jsval" where
  "getProp eng site v k =
     (if isNullish v then Inl (typeError eng site) else Inr (property v k))"

text \<open>
  Whether the conversion of a value to a string (in a template literal) or to a number
  (in a subtraction) completes. A primitive converts. A plain object converts, to
  \<open>[object Object]\<close>, through the inherited \<open>toString\<close>, unless it has an own property
  \<open>toString\<close>: that one is not callable, and neither an own nor the inherited \<open>valueOf\<close>
  gives a primitive, so the conversion throws a \<open>TypeError\<close>. An array converts by
  joining the conversions of its elements (\<open>null\<close> and \<open>undefined\<close> give the empty
  string).
\<close>

fun stringifies :: "jsval \<Rightarrow> bool" where
  "stringifies (JArr xs) = list_all stringifies xs"
| "stringifies (JObj kvs) = (map_of kvs ''toString'' = None)"
| "stringifies v = True"

definition digit :: "nat \<Rightarrow> char" where
  "digit d = ''0123456789'' ! (d mod 10)"

function decimal :: "nat \<Rightarrow> string" where
  "decimal n = (if n < 10 then [digit n] else decimal (n div 10) @ [digit n])"
  by pat_completeness auto
termination
  by (relation "measure id") auto

declare decimal.simps [simp del]

definition indexed :: "jsval list \<Rightarrow> (string \<times> jsval) list" where
  "indexed xs = zip (map decimal [0..<length xs]) xs"

text \<open>
  The own enumerable properties that an object spread \<open>{...v}\<close> copies, and an object
  literal's property definition, which replaces the value of a key that is already
  there. The order of the keys of an object carries no meaning in the model.
\<close>

fun spreadProps :: "jsval \<Rightarrow> (string \<times> jsval) list" where
  "spreadProps (JObj kvs) = kvs"
| "spreadProps (JArr xs) = indexed xs"
| "spreadProps (JStr s) = indexed (map (\<lambda>c. JStr [c]) s)"
| "spreadProps v = []"

fun setProp :: "(string \<times> jsval) list \<Rightarrow> string \<times> jsval \<Rightarrow> (string \<times> jsval) list" where
  "setProp [] kv = [kv]"
| "setProp ((k', v') # kvs) kv =
     (if k' = fst kv then (k', snd kv) # kvs else (k', v') # setProp kvs kv)"

text \<open>
  The values a \<open>for ... of\<close> loop runs over: the elements of an array, the characters
  of a string; any other value is not iterable.
\<close>

fun iterate :: "Engine \<Rightarrow> string \<Rightarrow> jsval \<Rightarrow> jsval + jsval list" where
  "iterate eng site (JArr xs) = Inr xs"
| "iterate eng site (JStr s) = Inr (map (\<lambda>c. JStr [c]) s)"
| "iterate eng site v = Inl (typeError eng site)"

section \<open>Asynchronous operations\<close>

text \<open>
  An awaited operation acts on a state and either returns a value (\<open>Inr\<close>) or throws
  one (\<open>Inl\<close>); in both cases the state may have changed. An \<open>async\<close> function that
  throws returns a rejected promise, which its caller's \<open>await\<close> throws again, so a
  rejection and a throw are the same \<open>Inl\<close>.
\<close>

type_synonym ('a, 's) action = "'s \<Rightarrow> (jsval + 'a) \<times> 's"

definition returns :: "'a \<Rightarrow> ('a, 's) action" where
  "returns a = (\<lambda>s. (Inr a, s))"

definition throw :: "jsval \<Rightarrow> ('a, 's) action" where
  "throw e = (\<lambda>s. (Inl e, s))"

definition evaluated :: "jsval + 'a \<Rightarrow> ('a, 's) action" where
  "evaluated r = (\<lambda>s. (r, s))"

definition await :: "('a, 's) action \<Rightarrow> ('a \<Rightarrow> ('b, 's) action) \<Rightarrow> ('b, 's) action" where
  "await m f = (\<lambda>s. case m s of (Inl e, s') \<Rightarrow> (Inl e, s') | (Inr a, s') \<Rightarrow> f a s')"

definition tryCatch :: "('a, 's) action \<Rightarrow> (jsval \<Rightarrow> ('a, 's) action) \<Rightarrow> ('a, 's) action" where
  "tryCatch m h = (\<lambda>s. case m s of (Inl e, s') \<Rightarrow> h e s' | (Inr a, s') \<Rightarrow> (Inr a, s'))"

fun forEach :: "'a list \<Rightarrow> ('a \<Rightarrow> (unit, 's) action) \<Rightarrow> (unit, 's) action" where
  "forEach [] f s = (Inr (), s)"
| "forEach (x # xs) f s =
     (case f x s of (Inl e, s') \<Rightarrow> (Inl e, s') | (Inr u, s') \<Rightarrow> forEach xs f s')"

text \<open>
  A substitution \<open>${v}\<close> of a template literal converts the value to a string; the
  string itself goes to the logger, which is not modelled. A log line with several
  substitutions converts them from left to right.
\<close>

definition interpolate :: "Engine \<Rightarrow> string \<Rightarrow> jsval \<Rightarrow> (unit, 's) action" where
  "interpolate eng site v =
     (if stringifies v then returns () else throw (typeError eng site))"

section \<open>Job store\<close>

text \<open>
  The rows of the \<open>jobQueue\<close> and \<open>job\<close> tables, with the columns the scheduler reads
  or writes. Dates are integers (milliseconds since the epoch); a nullable column is an
  option. Columns that the store itself maintains (such as an automatic update time)
  are not modelled.
\<close>

record JobQueue =
  id' :: string
  name :: string
  concurrency :: nat
  isPaused :: bool

record Job =
  id' :: string
  queueId :: string
  name :: string
  data :: jsval
  status :: string
  priority :: int
  createdAt :: int
  delayUntil :: "int option"

text \<open>
  The database and the rest of the world: the two tables, the clock that \<open>new Date()\<close>
  reads, and whatever else the injected services read and change.
\<close>

record 'w store =
  jobQueue :: "JobQueue list"
  job :: "Job list"
  clock :: int
  world :: 'w

text \<open>
  The store's query operations as the scheduler uses them. \<open>updateMany\<close> applies the
  assignment to every row that satisfies the condition and returns the number of such
  rows. \<open>findMany\<close> with \<open>orderBy: [{priority: desc}, {createdAt: asc}]\<close> and \<open>take\<close>
  sorts by descending priority, then by ascending creation time (rows equal in both
  keep their table order in the model), and returns the first \<open>take\<close> rows; the
  \<open>concurrency\<close> it is given is a natural number. In the model these operations of the
  store never fail; the methods of the injected services may.
\<close>

definition updateMany :: "('r \<Rightarrow> bool) \<Rightarrow> ('r \<Rightarrow> 'r) \<Rightarrow> 'r list \<Rightarrow> nat \<times> 'r list" where
  "updateMany wh upd rows =
     (length (filter wh rows), map (\<lambda>r. if wh r then upd r else r) rows)"

definition findPendingJobs :: "string \<Rightarrow> nat \<Rightarrow> Job list \<Rightarrow> Job list" where
  "findPendingJobs qid n rows =
     take n (sort_key (\<lambda>j. - Job.priority j) (sort_key Job.createdAt
       (filter (\<lambda>j. Job.queueId j = qid \<and> Job.status j = ''pending'') rows)))"

section \<open>Job scheduler\<close>

text \<open>
  The interface \<open>JobResult\<close>: the three declared keys (the optional ones are \<open>None\<close>
  when the object has no such key) and, in \<open>extra\<close>, the other keys of the object.
\<close>

record JobResult =
  status :: string
  isMockMode :: "bool option"
  mockModeReason :: "string option"
  extra :: "(string \<times> jsval) list"

text \<open>
  The class \<open>JobSchedulerService\<close>. The two interval timers are not modelled: a timer
  tick is a call of \<open>processJobs\<close>. Of a call of the logger the model keeps the
  conversions of the substituted values to strings, which can throw, and nothing else.
\<close>

text \<open>
  The injected services, and the engine. Each optional service is \<open>None\<close> when it was
  not injected, and otherwise the method of it that the scheduler calls (two methods
  for the retention and webhook services); \<open>NotificationsService\<close> is injected and never
  called. \<open>JobsService\<close> is not among the source files: its three methods are
  parameters. \<open>listPolicies\<close> stands for the call with the filter \<open>{status: ACTIVE}\<close>,
  \<open>runPolicy\<close> for the call with \<open>{dryRun: false}\<close>, \<open>executeRaw\<close> takes the name of the
  table whose index the statement refreshes, and \<open>setDateBack\<close> is the calendar
  arithmetic \<open>setDate(getDate() - retentionDays)\<close> on the clock reading, for a
  \<open>retentionDays\<close> that converts to a number.
\<close>

record 'w JobsService =
  markJobActive :: "string \<Rightarrow> (unit, 'w store) action"
  markJobCompleted :: "string \<Rightarrow> JobResult \<Rightarrow> (unit, 'w store) action"
  markJobFailed :: "string \<Rightarrow> jsval \<Rightarrow> jsval \<Rightarrow> (unit, 'w store) action"

record 'w RetentionService =
  listPolicies :: "jsval \<Rightarrow> (jsval, 'w store) action"
  runPolicy :: "jsval \<Rightarrow> jsval \<Rightarrow> (jsval, 'w store) action"

record 'w WebhooksService =
  retryDelivery :: "jsval \<Rightarrow> jsval \<Rightarrow> jsval \<Rightarrow> (jsval, 'w store) action"
  triggerEvent :: "jsval \<Rightarrow> jsval \<Rightarrow> jsval \<Rightarrow> (jsval, 'w store) action"

record 'w Injected =
  engine :: Engine
  jobsService :: "'w JobsService"
  collectorsService :: "(jsval \<Rightarrow> jsval \<Rightarrow> string \<Rightarrow> (jsval, 'w store) action) option"
  emailService :: "(jsval \<Rightarrow> (jsval, 'w store) action) option"
  notificationsService :: "unit option"
  scheduledNotificationsService :: "(jsval, 'w store) action option"
  jiraService :: "(jsval \<Rightarrow> jsval \<Rightarrow> (jsval, 'w store) action) option"
  serviceNowService :: "(jsval \<Rightarrow> jsval \<Rightarrow> (jsval, 'w store) action) option"
  exportsService :: "(jsval \<Rightarrow> jsval \<Rightarrow> (jsval, 'w store) action) option"
  reportsService :: "(jsval \<Rightarrow> string \<Rightarrow> jsval \<Rightarrow> (jsval, 'w store) action) option"
  retentionService :: "'w RetentionService option"
  webhooksService :: "'w WebhooksService option"
  sessionService :: "(jsval, 'w store) action option"
  auditLogDeleteMany :: "jsval \<Rightarrow> (jsval, 'w store) action"
  executeRaw :: "string \<Rightarrow> (jsval, 'w store) action"
  setDateBack :: "int \<Rightarrow> jsval \<Rightarrow> jsval"

subsection \<open>Job handlers\<close>

text \<open>
  The \<open>catch\<close> block of a handler logs a line that substitutes the given values and then
  \<open>error.message\<close>, and throws the error again. The read of \<open>message\<close> throws when the
  caught value is \<open>null\<close> or \<open>undefined\<close>, and a substitution throws when its value does
  not convert to a string; what the block throws then is that \<open>TypeError\<close>.
\<close>

definition logAndRethrow ::
  "Engine \<Rightarrow> (string \<times> jsval) list \<Rightarrow> jsval \<Rightarrow> ('a, 's) action" where
  "logAndRethrow eng substituted error =
     await (forEach substituted (\<lambda>(site, v). interpolate eng site v)) (\<lambda>u.
     await (evaluated (getProp eng ''error.message'' error ''message'')) (\<lambda>message.
     await (interpolate eng ''${error.message}'' message) (\<lambda>u'. throw error)))"

definition runEvidenceCollector :: "'w Injected \<Rightarrow> jsval \<Rightarrow> (JobResult, 'w store) action" where
  "runEvidenceCollector this data' =
     await (evaluated (destructure (engine this)
              ''const { collectorId, organizationId } = data'' data')) (\<lambda>d.
       let collectorId = property d ''collectorId'';
           organizationId = property d ''organizationId''
       in await (interpolate (engine this) ''${collectorId}'' collectorId) (\<lambda>u.
          case collectorsService this of
            None \<Rightarrow>
              returns \<lparr>JobResult.status = ''completed'', isMockMode = Some True,
                mockModeReason =
                  Some ''CollectorsService not injected - ensure CollectorsModule is imported'',
                extra = [(''collectorId'', collectorId)]\<rparr>
          | Some run \<Rightarrow>
              tryCatch
                (await (run collectorId organizationId ''system-scheduler'') (\<lambda>result.
                   returns \<lparr>JobResult.status = ''completed'', isMockMode = None,
                     mockModeReason = None,
                     extra = [(''collectorId'', collectorId), (''result'', result)]\<rparr>))
                (logAndRethrow (engine this) [(''${collectorId}'', collectorId)])))"

definition sendScheduledNotifications ::
  "'w Injected \<Rightarrow> jsval \<Rightarrow> (JobResult, 'w store) action" where
  "sendScheduledNotifications this data' =
     (case scheduledNotificationsService this of
        None \<Rightarrow>
          returns \<lparr>JobResult.status = ''completed'', isMockMode = Some True,
            mockModeReason = Some ''ScheduledNotificationsService not injected'',
            extra = []\<rparr>
      | Some runScheduledNotifications \<Rightarrow>
          tryCatch
            (await runScheduledNotifications (\<lambda>r.
               returns \<lparr>JobResult.status = ''completed'', isMockMode = None,
                 mockModeReason = None, extra = []\<rparr>))
            (logAndRethrow (engine this) []))"

definition sendEmail :: "'w Injected \<Rightarrow> jsval \<Rightarrow> (JobResult, 'w store) action" where
  "sendEmail this data' =
     await (evaluated (destructure (engine this)
              ''const { to, subject, html, text } = data'' data')) (\<lambda>d.
       let to = property d ''to''; subject = property d ''subject'';
           html = property d ''html''; text = property d ''text''
       in await (interpolate (engine this) ''${to}'' to) (\<lambda>u.
          case emailService this of
            None \<Rightarrow>
              returns \<lparr>JobResult.status = ''sent'', isMockMode = Some True,
                mockModeReason = Some ''EmailService not injected'',
                extra = [(''to'', to)]\<rparr>
          | Some send \<Rightarrow>
              tryCatch
                (await (send (JObj [(''to'', to), (''subject'', subject), (''html'', html),
                                    (''text'', text)])) (\<lambda>r.
                   returns \<lparr>JobResult.status = ''sent'', isMockMode = None,
                     mockModeReason = None, extra = [(''to'', to)]\<rparr>))
                (logAndRethrow (engine this) [(''${to}'', to)])))"

definition syncJira :: "'w Injected \<Rightarrow> jsval \<Rightarrow> (JobResult, 'w store) action" where
  "syncJira this data' =
     await (evaluated (destructure (engine this)
              ''const { mappingId, organizationId } = data'' data')) (\<lambda>d.
       let mappingId = property d ''mappingId'';
           organizationId = property d ''organizationId''
       in await (interpolate (engine this) ''${mappingId}'' mappingId) (\<lambda>u.
          case jiraService this of
            None \<Rightarrow>
              returns \<lparr>JobResult.status = ''synced'', isMockMode = Some True,
                mockModeReason = Some ''JiraService not injected - ensure JiraModule is imported'',
                extra = [(''mappingId'', mappingId)]\<rparr>
          | Some syncNow \<Rightarrow>
              tryCatch
                (await (syncNow organizationId mappingId) (\<lambda>r.
                   returns \<lparr>JobResult.status = ''synced'', isMockMode = None,
                     mockModeReason = None, extra = [(''mappingId'', mappingId)]\<rparr>))
                (logAndRethrow (engine this) [(''${mappingId}'', mappingId)])))"

definition syncServiceNow :: "'w Injected \<Rightarrow> jsval \<Rightarrow> (JobResult, 'w store) action" where
  "syncServiceNow this data' =
     await (evaluated (destructure (engine this)
              ''const { mappingId, organizationId } = data'' data')) (\<lambda>d.
       let mappingId = property d ''mappingId'';
           organizationId = property d ''organizationId''
       in await (interpolate (engine this) ''${mappingId}'' mappingId) (\<lambda>u.
          case serviceNowService this of
            None \<Rightarrow>
              returns \<lparr>JobResult.status = ''synced'', isMockMode = Some True,
                mockModeReason =
                  Some ''ServiceNowService not injected - ensure ServiceNowModule is imported'',
                extra = [(''mappingId'', mappingId)]\<rparr>
          | Some syncNow \<Rightarrow>
              tryCatch
                (await (syncNow organizationId mappingId) (\<lambda>r.
                   returns \<lparr>JobResult.status = ''synced'', isMockMode = None,
                     mockModeReason = None, extra = [(''mappingId'', mappingId)]\<rparr>))
                (logAndRethrow (engine this) [(''${mappingId}'', mappingId)])))"

definition generateExport :: "'w Injected \<Rightarrow> jsval \<Rightarrow> (JobResult, 'w store) action" where
  "generateExport this data' =
     await (evaluated (destructure (engine this)
              ''const { exportId, organizationId } = data'' data')) (\<lambda>d.
       let exportId = property d ''exportId'';
           organizationId = property d ''organizationId''
       in await (interpolate (engine this) ''${exportId}'' exportId) (\<lambda>u.
          case exportsService this of
            None \<Rightarrow>
              returns \<lparr>JobResult.status = ''generated'', isMockMode = Some True,
                mockModeReason = Some ''ExportsService not injected'',
                extra = [(''exportId'', exportId)]\<rparr>
          | Some processExportJob \<Rightarrow>
              tryCatch
                (await (processExportJob exportId organizationId) (\<lambda>r.
                   returns \<lparr>JobResult.status = ''generated'', isMockMode = None,
                     mockModeReason = None, extra = [(''exportId'', exportId)]\<rparr>))
                (logAndRethrow (engine this) [(''${exportId}'', exportId)])))"

definition generateReport :: "'w Injected \<Rightarrow> jsval \<Rightarrow> (JobResult, 'w store) action" where
  "generateReport this data' =
     await (evaluated (destructure (engine this)
              ''const { reportType, organizationId, parameters } = data'' data')) (\<lambda>d.
       let reportType = property d ''reportType'';
           organizationId = property d ''organizationId'';
           parameters = property d ''parameters''
       in await (interpolate (engine this) ''${reportType}'' reportType) (\<lambda>u.
          case reportsService this of
            None \<Rightarrow>
              returns \<lparr>JobResult.status = ''generated'', isMockMode = Some True,
                mockModeReason = Some ''ReportsService not injected'',
                extra = [(''reportType'', reportType)]\<rparr>
          | Some generate \<Rightarrow>
              tryCatch
                (let dto = JObj (foldl setProp [(''reportType'', reportType)]
                                   (spreadProps parameters))
                 in await (generate organizationId ''system-scheduler'' dto) (\<lambda>result.
                      await (evaluated (getProp (engine this) ''result.filename'' result
                               ''filename'')) (\<lambda>filename.
                        returns \<lparr>JobResult.status = ''generated'', isMockMode = None,
                          mockModeReason = None,
                          extra = [(''reportType'', reportType), (''filename'', filename)]\<rparr>)))
                (logAndRethrow (engine this) [(''${reportType}'', reportType)])))"

definition cleanupExpiredSessions ::
  "'w Injected \<Rightarrow> jsval \<Rightarrow> (JobResult, 'w store) action" where
  "cleanupExpiredSessions this data' =
     (case sessionService this of
        None \<Rightarrow>
          returns \<lparr>JobResult.status = ''completed'', isMockMode = Some True,
            mockModeReason = Some ''SessionService not injected'',
            extra = [(''deletedCount'', JNum 0)]\<rparr>
      | Some cleanup \<Rightarrow>
          tryCatch
            (await cleanup (\<lambda>deletedCount.
             await (interpolate (engine this) ''${deletedCount}'' deletedCount) (\<lambda>u.
               returns \<lparr>JobResult.status = ''completed'', isMockMode = None,
                 mockModeReason = None, extra = [(''deletedCount'', deletedCount)]\<rparr>)))
            (logAndRethrow (engine this) []))"

definition cleanupOldAuditLogs :: "'w Injected \<Rightarrow> jsval \<Rightarrow> (JobResult, 'w store) action" where
  "cleanupOldAuditLogs this data' =
     await (evaluated (destructure (engine this)
              ''const { retentionDays = 365, organizationId } = data'' data')) (\<lambda>d. (\<lambda>s.
       let retentionDays = (if property d ''retentionDays'' = JUndefined then JNum 365
                            else property d ''retentionDays'');
           organizationId = property d ''organizationId''
       in if \<not> stringifies retentionDays
          then (Inl (typeError (engine this) ''cutoffDate.getDate() - retentionDays''), s)
          else
            let cutoffDate = setDateBack this (clock s) retentionDays;
                whereClause = [(''timestamp'', JObj [(''lt'', cutoffDate)])]
                  @ (if truthy organizationId then [(''organizationId'', organizationId)]
                     else [])
            in await (auditLogDeleteMany this (JObj [(''where'', JObj whereClause)]))
                 (\<lambda>result.
                  await (evaluated (getProp (engine this) ''result.count'' result ''count''))
                    (\<lambda>count.
                  await (interpolate (engine this) ''${result.count}'' count) (\<lambda>u.
                  await (interpolate (engine this) ''${retentionDays}'' retentionDays) (\<lambda>u'.
                    returns \<lparr>JobResult.status = ''completed'', isMockMode = None,
                      mockModeReason = None,
                      extra = [(''deletedCount'', count),
                               (''retentionDays'', retentionDays)]\<rparr>))))
                 s))"

fun runPolicies ::
  "Engine \<Rightarrow> (jsval \<Rightarrow> jsval \<Rightarrow> (jsval, 's) action) \<Rightarrow> jsval \<Rightarrow> jsval list \<Rightarrow> jsval list
    \<Rightarrow> (jsval list, 's) action" where
  "runPolicies eng run organizationId [] results s = (Inr results, s)"
| "runPolicies eng run organizationId (policy # policies) results s =
     (case getProp eng ''policy.id'' policy ''id'' of
        Inl e \<Rightarrow> (Inl e, s)
      | Inr policyId \<Rightarrow>
          (case run organizationId policyId s of
             (Inl e, s') \<Rightarrow> (Inl e, s')
           | (Inr result, s') \<Rightarrow>
               runPolicies eng run organizationId policies (results @ [result]) s'))"

definition runRetentionPolicies :: "'w Injected \<Rightarrow> jsval \<Rightarrow> (JobResult, 'w store) action" where
  "runRetentionPolicies this data' =
     await (evaluated (destructure (engine this)
              ''const { organizationId } = data'' data')) (\<lambda>d.
       let organizationId = property d ''organizationId''
       in case retentionService this of
            None \<Rightarrow>
              returns \<lparr>JobResult.status = ''completed'', isMockMode = Some True,
                mockModeReason = Some ''RetentionService not injected'', extra = []\<rparr>
          | Some retention \<Rightarrow>
              tryCatch
                (await (listPolicies retention organizationId) (\<lambda>policies.
                 await (evaluated (getProp (engine this) ''policies.data'' policies ''data''))
                   (\<lambda>listed.
                 await (evaluated (if truthy listed
                                   then iterate (engine this) ''policies.data || []'' listed
                                   else Inr [])) (\<lambda>ps.
                 await (runPolicies (engine this) (runPolicy retention) organizationId ps [])
                   (\<lambda>results.
                   returns \<lparr>JobResult.status = ''completed'', isMockMode = None,
                     mockModeReason = None,
                     extra = [(''policiesExecuted'', JNum (int (length results))),
                              (''results'', JArr results)]\<rparr>)))))
                (logAndRethrow (engine this) []))"

definition refreshSearchIndexes :: "'w Injected \<Rightarrow> jsval \<Rightarrow> (JobResult, 'w store) action" where
  "refreshSearchIndexes this data' =
     await (evaluated (destructure (engine this)
              ''const { organizationId: _organizationId } = data'' data')) (\<lambda>d.
       tryCatch
         (await (executeRaw this ''Control'') (\<lambda>r1.
          await (executeRaw this ''Risk'') (\<lambda>r2.
          await (executeRaw this ''Policy'') (\<lambda>r3.
            returns \<lparr>JobResult.status = ''completed'', isMockMode = None,
              mockModeReason = None, extra = []\<rparr>))))
         (\<lambda>error.
            await (evaluated (getProp (engine this) ''error.message'' error ''message''))
              (\<lambda>message.
            await (interpolate (engine this) ''${error.message}'' message) (\<lambda>u.
              returns \<lparr>JobResult.status = ''completed'', isMockMode = None,
                mockModeReason = None, extra = [(''warning'', message)]\<rparr>))))"

definition deliverWebhook :: "'w Injected \<Rightarrow> jsval \<Rightarrow> (JobResult, 'w store) action" where
  "deliverWebhook this data' =
     await (evaluated (destructure (engine this)
              ''const { deliveryId, webhookId, event, payload } = data'' data')) (\<lambda>d.
       let deliveryId = property d ''deliveryId''; webhookId = property d ''webhookId'';
           event = property d ''event''; payload = property d ''payload''
       in await (interpolate (engine this) ''${deliveryId || webhookId}''
                   (if truthy deliveryId then deliveryId else webhookId)) (\<lambda>u.
          case webhooksService this of
            None \<Rightarrow>
              returns \<lparr>JobResult.status = ''delivered'', isMockMode = Some True,
                mockModeReason = Some ''WebhooksService not injected'',
                extra = [(''deliveryId'', deliveryId)]\<rparr>
          | Some webhooks \<Rightarrow>
              tryCatch
                (await
                   (if truthy deliveryId \<and> truthy (property d ''organizationId'')
                       \<and> truthy (property d ''webhookId'')
                    then retryDelivery webhooks (property d ''organizationId'')
                           (property d ''webhookId'') deliveryId
                    else if truthy (property d ''organizationId'') \<and> truthy event
                       \<and> truthy payload
                    then triggerEvent webhooks (property d ''organizationId'') event payload
                    else throw (newError (engine this)
                           ''new Error(...)''
                           ''Missing required webhook delivery parameters''))
                   (\<lambda>r. returns \<lparr>JobResult.status = ''delivered'', isMockMode = None,
                           mockModeReason = None, extra = [(''deliveryId'', deliveryId)]\<rparr>))
                (logAndRethrow (engine this) [(''${deliveryId}'', deliveryId)])))"

subsection \<open>Dispatch\<close>

text \<open>The \<open>case\<close> labels of \<open>executeJob\<close>, in the source's order.\<close>

definition handlerNames :: "string list" where
  "handlerNames =
     [''run-evidence-collector'', ''send-scheduled-notifications'', ''send-email'',
      ''sync-jira'', ''sync-servicenow'', ''generate-export'', ''generate-report'',
      ''cleanup-expired-sessions'', ''cleanup-old-audit-logs'', ''run-retention-policies'',
      ''refresh-search-indexes'', ''deliver-webhook'']"

definition executeJob :: "'w Injected \<Rightarrow> Job \<Rightarrow> (JobResult, 'w store) action" where
  "executeJob this j =
     (if Job.name j = ''run-evidence-collector'' then runEvidenceCollector this (Job.data j)
      else if Job.name j = ''send-scheduled-notifications''
        then sendScheduledNotifications this (Job.data j)
      else if Job.name j = ''send-email'' then sendEmail this (Job.data j)
      else if Job.name j = ''sync-jira'' then syncJira this (Job.data j)
      else if Job.name j = ''sync-servicenow'' then syncServiceNow this (Job.data j)
      else if Job.name j = ''generate-export'' then generateExport this (Job.data j)
      else if Job.name j = ''generate-report'' then generateReport this (Job.data j)
      else if Job.name j = ''cleanup-expired-sessions''
        then cleanupExpiredSessions this (Job.data j)
      else if Job.name j = ''cleanup-old-audit-logs'' then cleanupOldAuditLogs this (Job.data j)
      else if Job.name j = ''run-retention-policies''
        then runRetentionPolicies this (Job.data j)
      else if Job.name j = ''refresh-search-indexes''
        then refreshSearchIndexes this (Job.data j)
      else if Job.name j = ''deliver-webhook'' then deliverWebhook this (Job.data j)
      else returns \<lparr>JobResult.status = ''skipped'', isMockMode = None,
             mockModeReason = None,
             extra = [(''reason'', JStr (''Unknown job type: '' @ Job.name j))]\<rparr>)"

subsection \<open>Processing cycle\<close>

text \<open>
  The state of the scheduler: the re-entrancy flag, the store, and a record of the
  calls the scheduler has made to the store, to \<open>JobsService\<close> and to \<open>executeJob\<close>, in
  order. The record of calls is not in the source; it makes reads, which change
  nothing, visible. The injected services act on the store only.
\<close>

datatype call =
    QueueFindMany
  | JobFindMany string
  | MarkJobActive string
  | ExecuteJob string
  | MarkJobCompleted string JobResult
  | MarkJobFailed string jsval jsval
  | JobUpdateMany

record 'w scheduler =
  isRunning :: bool
  calls :: "call list"
  db :: "'w store"

definition invoke :: "call \<Rightarrow> ('a, 'w store) action \<Rightarrow> ('a, 'w scheduler) action" where
  "invoke c m =
     (\<lambda>s. case m (db s) of (r, d) \<Rightarrow> (r, s\<lparr>calls := calls s @ [c], db := d\<rparr>))"

definition promoteDelayedJobs :: "(unit, 'w scheduler) action" where
  "promoteDelayedJobs =
     invoke JobUpdateMany (\<lambda>d.
       let now = clock d;
           result = updateMany
             (\<lambda>j. Job.status j = ''delayed''
                  \<and> (case Job.delayUntil j of None \<Rightarrow> False | Some t \<Rightarrow> t \<le> now))
             (\<lambda>j. j\<lparr>Job.status := ''pending'', Job.delayUntil := None\<rparr>)
             (job d)
       in (Inr (), d\<lparr>job := snd result\<rparr>))"

text \<open>
  The body of the loop of \<open>processQueueJobs\<close> for one claimed row: the \<open>try\<close> block and
  its \<open>catch\<close>, which logs a line with \<open>error.message\<close> and passes \<open>error.message\<close> and
  \<open>error.stack\<close> to \<open>markJobFailed\<close>. The other log lines of the loop substitute strings
  and a length only.
\<close>

definition processJob :: "'w Injected \<Rightarrow> Job \<Rightarrow> (unit, 'w scheduler) action" where
  "processJob this j =
     tryCatch
       (await (invoke (MarkJobActive (Job.id' j))
                 (markJobActive (jobsService this) (Job.id' j))) (\<lambda>u.
        await (invoke (ExecuteJob (Job.id' j)) (executeJob this j)) (\<lambda>result.
          invoke (MarkJobCompleted (Job.id' j) result)
            (markJobCompleted (jobsService this) (Job.id' j) result))))
       (\<lambda>error.
          await (evaluated (getProp (engine this) ''error.message'' error ''message''))
            (\<lambda>message.
          await (interpolate (engine this) ''${error.message}'' message) (\<lambda>u.
          await (evaluated (getProp (engine this) ''error.stack'' error ''stack''))
            (\<lambda>stack.
            invoke (MarkJobFailed (Job.id' j) message stack)
              (markJobFailed (jobsService this) (Job.id' j) message stack)))))"

definition processQueueJobs :: "'w Injected \<Rightarrow> JobQueue \<Rightarrow> (unit, 'w scheduler) action" where
  "processQueueJobs this queue =
     await (invoke (JobFindMany (JobQueue.id' queue))
              (\<lambda>d. (Inr (findPendingJobs (JobQueue.id' queue) (concurrency queue) (job d)), d)))
       (\<lambda>pendingJobs.
          if length pendingJobs = 0 then returns ()
          else forEach pendingJobs (processJob this))"

text \<open>
  \<open>processJobs\<close>: the guard, and then the flag set, the \<open>try\<close> block (named
  \<open>processingCycle\<close> here), the \<open>catch\<close> that only logs, and the \<open>finally\<close> that clears
  the flag.
\<close>

definition processingCycle :: "'w Injected \<Rightarrow> (unit, 'w scheduler) action" where
  "processingCycle this =
     await (invoke QueueFindMany
              (\<lambda>d. (Inr (filter (\<lambda>q. \<not> isPaused q) (jobQueue d)), d)))
       (\<lambda>queues.
          await (forEach queues (processQueueJobs this)) (\<lambda>u. promoteDelayedJobs))"

definition processJobs :: "'w Injected \<Rightarrow> (unit, 'w scheduler) action" where
  "processJobs this =
     (\<lambda>s. if isRunning s then (Inr (), s)
          else
            (case tryCatch (processingCycle this) (\<lambda>error. returns ())
                    (s\<lparr>isRunning := True\<rparr>)
             of (r, s') \<Rightarrow> (r, s'\<lparr>isRunning := False\<rparr>)))"

text \<open>An operation of the scheduler that leaves the in-progress flag as it found it.\<close>

definition keepsFlag :: "('a, 'w scheduler) action \<Rightarrow> bool" where
  "keepsFlag m = (\<forall>s. isRunning (snd (m s)) = isRunning s)"

text \<open>
  Which job types have a nullable injected service behind them and which service that
  is; which of these handlers do not read the payload; and, for the others, the value
  of the payload that the handler's first log line substitutes, before the handler looks
  at the service.
\<close>

definition capabilityAbsent :: "'w Injected \<Rightarrow> string \<Rightarrow> bool" where
  "capabilityAbsent this n =
     (n = ''run-evidence-collector'' \<and> collectorsService this = None
      \<or> n = ''send-scheduled-notifications'' \<and> scheduledNotificationsService this = None
      \<or> n = ''send-email'' \<and> emailService this = None
      \<or> n = ''sync-jira'' \<and> jiraService this = None
      \<or> n = ''sync-servicenow'' \<and> serviceNowService this = None
      \<or> n = ''generate-export'' \<and> exportsService this = None
      \<or> n = ''generate-report'' \<and> reportsService this = None
      \<or> n = ''cleanup-expired-sessions'' \<and> sessionService this = None
      \<or> n = ''run-retention-policies'' \<and> retentionService this = None
      \<or> n = ''deliver-webhook'' \<and> webhooksService this = None)"

definition ignoresPayload :: "string \<Rightarrow> bool" where
  "ignoresPayload n =
     (n = ''send-scheduled-notifications'' \<or> n = ''cleanup-expired-sessions'')"

definition loggedValue :: "string \<Rightarrow> jsval \<Rightarrow> jsval" where
  "loggedValue n d =
     (if n = ''run-evidence-collector'' then property d ''collectorId''
      else if n = ''send-email'' then property d ''to''
      else if n = ''sync-jira'' \<or> n = ''sync-servicenow'' then property d ''mappingId''
      else if n = ''generate-export'' then property d ''exportId''
      else if n = ''generate-report'' then property d ''reportType''
      else if n = ''deliver-webhook''
        then (if truthy (property d ''deliveryId'') then property d ''deliveryId''
              else property d ''webhookId'')
      else JUndefined)"

text \<open>The method behind a recorded call.\<close>

fun callName :: "call \<Rightarrow> string" where
  "callName QueueFindMany = ''jobQueue.findMany''"
| "callName (JobFindMany q) = ''job.findMany''"
| "callName (MarkJobActive i) = ''markJobActive''"
| "callName (ExecuteJob i) = ''executeJob''"
| "callName (MarkJobCompleted i r) = ''markJobCompleted''"
| "callName (MarkJobFailed i m st) = ''markJobFailed''"
| "callName JobUpdateMany = ''job.updateMany''"

text \<open>
  Stand-ins to evaluate the scheduler on: an engine, a \<open>JobsService\<close> that only
  writes the status column, and a deployment in which no optional service is injected.
\<close>

definition exampleEngine :: Engine where
  "exampleEngine =
     \<lparr>typeErrorMessage = (\<lambda>site. ''TypeError raised by '' @ site),
      stackTrace = (\<lambda>site. ''    at '' @ site)\<rparr>"

definition setStatus :: "string \<Rightarrow> string \<Rightarrow> (unit, 'w store) action" where
  "setStatus i st =
     (\<lambda>d. (Inr (),
        d\<lparr>job := map (\<lambda>j. if Job.id' j = i then j\<lparr>Job.status := st\<rparr> else j) (job d)\<rparr>))"

definition statusJobsService :: "'w JobsService" where
  "statusJobsService =
     \<lparr>markJobActive = (\<lambda>i. setStatus i ''active''),
      markJobCompleted = (\<lambda>i r. setStatus i ''completed''),
      markJobFailed = (\<lambda>i m st. setStatus i ''failed'')\<rparr>"

definition nothingInjected :: "unit Injected" where
  "nothingInjected =
     \<lparr>engine = exampleEngine, jobsService = statusJobsService,
      collectorsService = None, emailService = None, notificationsService = None,
      scheduledNotificationsService = None, jiraService = None, serviceNowService = None,
      exportsService = None, reportsService = None, retentionService = None,
      webhooksService = None, sessionService = None,
      auditLogDeleteMany = (\<lambda>w d. (Inr (JObj [(''count'', JNum 0)]), d)),
      executeRaw = (\<lambda>t d. (Inr (JNum 0), d)),
      setDateBack = (\<lambda>now days. JNum now)\<rparr>"

definition exampleJobs :: "Job list" where
  "exampleJobs =
     [\<lparr>Job.id' = ''j1'', queueId = ''q1'', Job.name = ''rebuild-cache'', data = JObj [],
       Job.status = ''pending'', priority = 0, createdAt = 10, delayUntil = None\<rparr>,
      \<lparr>Job.id' = ''j2'', queueId = ''q1'', Job.name = ''send-email'', data = JNull,
       Job.status = ''delayed'', priority = 0, createdAt = 20, delayUntil = Some 900\<rparr>,
      \<lparr>Job.id' = ''j3'', queueId = ''q1'', Job.name = ''sync-jira'',
       data = JObj [(''mappingId'', JStr ''m1'')], Job.status = ''delayed'', priority = 5,
       createdAt = 30, delayUntil = Some 1001\<rparr>,
      \<lparr>Job.id' = ''j4'', queueId = ''q1'', Job.name = ''send-email'',
       data = JObj [(''to'', JStr ''a@b.c'')], Job.status = ''delayed'', priority = 0,
       createdAt = 40, delayUntil = None\<rparr>,
      \<lparr>Job.id' = ''j5'', queueId = ''q1'', Job.name = ''generate-export'',
       data = JObj [], Job.status = ''active'', priority = 0, createdAt = 50,
       delayUntil = Some 500\<rparr>]"

definition exampleScheduler :: "bool \<Rightarrow> unit scheduler" where
  "exampleScheduler running =
     \<lparr>isRunning = running, calls = [],
      db = \<lparr>jobQueue = [\<lparr>JobQueue.id' = ''q1'', JobQueue.name = ''default'',
                          concurrency = 2, isPaused = False\<rparr>],
            job = exampleJobs, clock = 1000, world = ()\<rparr>\<rparr>"

section \<open>Numbers\<close>

text \<open>
  The options of \<open>retryAsync\<close> are JavaScript numbers: IEEE 754 doubles, with the two
  infinities and NaN. A finite double is given by its value, a rational number (the two
  zeros are not distinguished). \<open>toDouble\<close> rounds a rational number to the nearest
  double, a tie to the one with the even significand: \<open>exponent x\<close> is the integer \<open>e\<close>
  with \<open>2^e \<le> |x| < 2^(e+1)\<close>, the doubles near \<open>x\<close> are the multiples of
  \<open>2^(max e (-1022) - 52)\<close>, and a result of magnitude \<open>2^1024\<close> or more is an infinity.
  A rational number is a double when rounding leaves it unchanged.
\<close>

datatype number = Finite rat | PlusInfinity | MinusInfinity | NaN

definition exponent :: "rat \<Rightarrow> int" where
  "exponent x =
     (case quotient_of \<bar>x\<bar> of (a, b) \<Rightarrow>
        let k = bitlen a - bitlen b in if 2 powi k \<le> \<bar>x\<bar> then k else k - 1)"

definition roundHalfEven :: "rat \<Rightarrow> int" where
  "roundHalfEven x =
     (let f = \<lfloor>x\<rfloor>; d = x - of_int f
      in if d < 1 / 2 \<or> (d = 1 / 2 \<and> even f) then f else f + 1)"

definition toDouble :: "rat \<Rightarrow> number" where
  "toDouble x =
     (if x = 0 then Finite 0
      else
        let u = 2 powi (max (exponent x) (- 1022) - 52);
            y = of_int (roundHalfEven (x / u)) * u
        in if 2 ^ 1024 \<le> \<bar>y\<bar> then (if 0 < x then PlusInfinity else MinusInfinity)
           else Finite y)"

definition isDouble :: "rat \<Rightarrow> bool" where
  "isDouble x = (toDouble x = Finite x)"

text \<open>
  The operators \<open>*\<close>, \<open>+\<close>, \<open><\<close> and \<open><=\<close> and \<open>Math.min\<close> on numbers. A product or a
  sum of finite numbers is the exact result, rounded. A product with an infinity is NaN
  when the other factor is zero; a comparison with NaN is false; \<open>Math.min\<close> is NaN
  when an argument is.
\<close>

fun isPositive :: "number \<Rightarrow> bool" where
  "isPositive (Finite x) = (0 < x)"
| "isPositive PlusInfinity = True"
| "isPositive MinusInfinity = False"
| "isPositive NaN = False"

definition mulNum :: "number \<Rightarrow> number \<Rightarrow> number" where
  "mulNum a b =
     (case (a, b) of
        (Finite x, Finite y) \<Rightarrow> toDouble (x * y)
      | _ \<Rightarrow>
          if a = NaN \<or> b = NaN \<or> a = Finite 0 \<or> b = Finite 0 then NaN
          else if isPositive a = isPositive b then PlusInfinity
          else MinusInfinity)"

definition addNum :: "number \<Rightarrow> number \<Rightarrow> number" where
  "addNum a b =
     (case (a, b) of
        (Finite x, Finite y) \<Rightarrow> toDouble (x + y)
      | _ \<Rightarrow>
          if a = NaN \<or> b = NaN then NaN
          else if a = PlusInfinity \<and> b = MinusInfinity then NaN
          else if a = MinusInfinity \<and> b = PlusInfinity then NaN
          else if a = PlusInfinity \<or> b = PlusInfinity then PlusInfinity
          else MinusInfinity)"

definition numLess :: "number \<Rightarrow> number \<Rightarrow> bool" where
  "numLess a b =
     (case (a, b) of
        (Finite x, Finite y) \<Rightarrow> x < y
      | (Finite x, PlusInfinity) \<Rightarrow> True
      | (MinusInfinity, Finite y) \<Rightarrow> True
      | (MinusInfinity, PlusInfinity) \<Rightarrow> True
      | _ \<Rightarrow> False)"

definition numLeq :: "number \<Rightarrow> number \<Rightarrow> bool" where
  "numLeq a b =
     (case (a, b) of
        (Finite x, Finite y) \<Rightarrow> x \<le> y
      | (Finite x, PlusInfinity) \<Rightarrow> True
      | (MinusInfinity, Finite y) \<Rightarrow> True
      | (MinusInfinity, PlusInfinity) \<Rightarrow> True
      | (MinusInfinity, MinusInfinity) \<Rightarrow> True
      | (PlusInfinity, PlusInfinity) \<Rightarrow> True
      | _ \<Rightarrow> False)"

definition mathMin :: "number \<Rightarrow> number \<Rightarrow> number" where
  "mathMin a b = (if a = NaN \<or> b = NaN then NaN else if numLess b a then b else a)"

text \<open>
  The loop counter \<open>attempt\<close> of \<open>retryAsync\<close> starts at 0 and changes by \<open>attempt++\<close>
  only, so its value is a natural number. \<open>counter\<close> is that value as a number.
  \<open>attempt++\<close> adds one up to \<open>2^53\<close>; there the sum \<open>2^53 + 1\<close> rounds back to \<open>2^53\<close>
  and the counter stays. \<open>Math.pow(2, attempt)\<close> is the power of two, which is a double,
  while it is below \<open>2^1024\<close>, and \<open>Infinity\<close> from there on.
\<close>

definition counter :: "nat \<Rightarrow> number" where
  "counter n = Finite (of_nat n)"

definition increment :: "nat \<Rightarrow> nat" where
  "increment n = (if int n < 2 ^ 53 then Suc n else n)"

definition mathPow2 :: "nat \<Rightarrow> number" where
  "mathPow2 n = (if n < 1024 then Finite (2 ^ n) else PlusInfinity)"

section \<open>Error helpers and retry with backoff\<close>

text \<open>
  \<open>retryAsync\<close> and the helpers it calls. The operation \<open>fn\<close> may throw any value
  (\<open>unknown\<close>); a thrown value is represented by what the helpers look at: a string; a
  \<open>DomainError\<close> with its message, code, status code and details; another \<open>Error\<close>
  with its message, its \<open>response.status\<close> when that is a number and its own numeric
  \<open>statusCode\<close>; another object with its \<open>message\<close> property and its numeric
  \<open>statusCode\<close>, each when present; anything else (a number, \<open>null\<close>, \<open>undefined\<close>).
  Status codes are integers.

  The \<open>message\<close> of a thrown object is typed \<open>string\<close> or \<open>unknown\<close> and can be any value.
  It is represented by how it converts to a string: \<open>undefined\<close>; a string; a symbol
  with its description; any other value with the string it converts to, or with none
  when the conversion throws (an object without a callable \<open>toString\<close> or \<open>valueOf\<close>).
\<close>

datatype message = MUndefined | MString string | MSymbol string | MOther "string option"

datatype detail = DetailAbsent | DetailText string | DetailNumber number

datatype thrown =
    ThrownString string
  | ThrownDomainError message string int "(string \<times> detail) list option"
  | ThrownError message "int option" "int option"
  | ThrownObject "message option" "int option"
  | ThrownOther

text \<open>
  A \<open>TypeError\<close> raised by the engine is an \<open>Error\<close> with the engine's message.
  \<open>stringOf\<close> is the call \<open>String(v)\<close>, which converts a symbol too;
  \<open>constructedMessage\<close> is the \<open>message\<close> that \<open>super(message)\<close> gives the new error: the
  empty string inherited from the prototype when the argument is \<open>undefined\<close>, the
  conversion of the argument to a string otherwise, which throws for a symbol. Both are
  \<open>None\<close> when the conversion throws.
\<close>

definition typeErrorThrown :: "Engine \<Rightarrow> string \<Rightarrow> thrown" where
  "typeErrorThrown eng site = ThrownError (MString (typeErrorMessage eng site)) None None"

fun stringOf :: "message \<Rightarrow> string option" where
  "stringOf MUndefined = Some ''undefined''"
| "stringOf (MString s) = Some s"
| "stringOf (MSymbol d) = Some (''Symbol('' @ d @ '')'')"
| "stringOf (MOther c) = c"

fun constructedMessage :: "message \<Rightarrow> string option" where
  "constructedMessage MUndefined = Some []"
| "constructedMessage (MString s) = Some s"
| "constructedMessage (MSymbol d) = None"
| "constructedMessage (MOther c) = c"

text \<open>
  The constructor of \<open>DomainError\<close>: \<open>Inl\<close> is the \<open>TypeError\<close> that \<open>super(message)\<close>
  throws, \<open>Inr\<close> the new error.
\<close>

definition newDomainError ::
  "Engine \<Rightarrow> message \<Rightarrow> string \<Rightarrow> int \<Rightarrow> (string \<times> detail) list option \<Rightarrow> thrown + thrown" where
  "newDomainError eng m code statusCode details =
     (case constructedMessage m of
        None \<Rightarrow> Inl (typeErrorThrown eng ''super(message)'')
      | Some s \<Rightarrow> Inr (ThrownDomainError (MString s) code statusCode details))"

text \<open>
  The branches of \<open>getErrorMessage\<close> and \<open>getStatusCode\<close>, in the source's order.
  \<open>getErrorMessage\<close> returns the \<open>message\<close> of an \<open>Error\<close> as it is, and throws when
  \<open>String\<close> does. In \<open>getStatusCode\<close>, a \<open>response.status\<close> of 0 is falsy, and the test
  of an own \<open>statusCode\<close> applies to every object, an \<open>Error\<close> too.
\<close>

fun getErrorMessage :: "Engine \<Rightarrow> thrown \<Rightarrow> thrown + message" where
  "getErrorMessage eng (ThrownString s) = Inr (MString s)"
| "getErrorMessage eng (ThrownDomainError m _ _ _) = Inr m"
| "getErrorMessage eng (ThrownError m _ _) = Inr m"
| "getErrorMessage eng (ThrownObject (Some m) _) =
     (case stringOf m of
        None \<Rightarrow> Inl (typeErrorThrown eng ''String((error as { message: unknown }).message)'')
      | Some s \<Rightarrow> Inr (MString s))"
| "getErrorMessage eng _ = Inr (MString ''An unknown error occurred'')"

definition ownStatusCode :: "int option \<Rightarrow> int" where
  "ownStatusCode sc = (case sc of Some c \<Rightarrow> c | None \<Rightarrow> 500)"

fun getStatusCode :: "thrown \<Rightarrow> int" where
  "getStatusCode (ThrownDomainError _ _ sc _) = sc"
| "getStatusCode (ThrownError _ (Some rs) sc) = (if rs \<noteq> 0 then rs else ownStatusCode sc)"
| "getStatusCode (ThrownError _ None sc) = ownStatusCode sc"
| "getStatusCode (ThrownObject _ sc) = ownStatusCode sc"
| "getStatusCode _ = 500"

text \<open>
  The options of \<open>retryAsync\<close>; \<open>maxDelayMs\<close> is optional and defaults to 30000.
\<close>

record RetryOptions =
  maxRetries :: number
  baseDelayMs :: number
  maxDelayMs :: "number option"

text \<open>
  What a run of \<open>retryAsync\<close> does, in order: an invocation of \<open>fn\<close>, or a wait for
  which \<open>setTimeout\<close> is given this number of milliseconds.
\<close>

datatype retry_event = Invoked | Slept number

text \<open>The delay \<open>Math.min(baseDelayMs * Math.pow(2, attempt), maxDelayMs)\<close>.\<close>

definition delayMs :: "number \<Rightarrow> number \<Rightarrow> nat \<Rightarrow> number" where
  "delayMs base maxDelay attempt = mathMin (mulNum base (mathPow2 attempt)) maxDelay"

text \<open>
  The \<open>throw new DomainError(...)\<close> after the loop: the value it throws, which is the
  \<open>TypeError\<close> of \<open>getErrorMessage\<close> or of the constructor when one of them throws.
\<close>

definition retryExhausted :: "Engine \<Rightarrow> thrown \<Rightarrow> string option \<Rightarrow> number \<Rightarrow> thrown" where
  "retryExhausted eng lastError context mr =
     (case getErrorMessage eng lastError of
        Inl e \<Rightarrow> e
      | Inr m \<Rightarrow>
          (case newDomainError eng m ''RETRY_EXHAUSTED'' (getStatusCode lastError)
                  (Some [(''context'',
                            (case context of None \<Rightarrow> DetailAbsent | Some c \<Rightarrow> DetailText c)),
                         (''attempts'', DetailNumber (addNum mr (Finite 1)))]) of
             Inl e \<Rightarrow> e
           | Inr d \<Rightarrow> d))"

text \<open>
  The \<open>for\<close> loop, from the current value of \<open>attempt\<close>, and the \<open>throw\<close> that follows
  it. The operation acts on a state \<open>'w\<close> (whatever it reads and changes) and returns
  its outcome, \<open>Inl\<close> for a thrown value. The loop returns the outcome of \<open>retryAsync\<close>,
  the state and the events so far; it need not end (\<open>maxRetries\<close> can be \<open>Infinity\<close>),
  and then the result is \<open>None\<close>. The substitutions of the log line are numbers and a
  string; the logger is not modelled.
\<close>

partial_function (option) retryLoop ::
  "Engine \<Rightarrow> ('w \<Rightarrow> (thrown + 'a) \<times> 'w) \<Rightarrow> number \<Rightarrow> number \<Rightarrow> number \<Rightarrow> string option
    \<Rightarrow> nat \<Rightarrow> thrown \<Rightarrow> 'w \<Rightarrow> retry_event list
    \<Rightarrow> ((thrown + 'a) \<times> 'w \<times> retry_event list) option" where
  "retryLoop eng fn mr base maxDelay context attempt lastError w tr =
     (if numLeq (counter attempt) mr then
        (case fn w of
           (Inr v, w') \<Rightarrow> Some (Inr v, w', tr @ [Invoked])
         | (Inl error, w') \<Rightarrow>
             if numLess (counter attempt) mr then
               retryLoop eng fn mr base maxDelay context (increment attempt) error w'
                 (tr @ [Invoked, Slept (delayMs base maxDelay attempt)])
             else
               retryLoop eng fn mr base maxDelay context (increment attempt) error w'
                 (tr @ [Invoked]))
      else Some (Inl (retryExhausted eng lastError context mr), w, tr))"

declare retryLoop.simps [code]

definition retryAsync ::
  "Engine \<Rightarrow> ('w \<Rightarrow> (thrown + 'a) \<times> 'w) \<Rightarrow> RetryOptions \<Rightarrow> string option \<Rightarrow> 'w
    \<Rightarrow> ((thrown + 'a) \<times> 'w \<times> retry_event list) option" where
  "retryAsync eng fn options context w =
     (let maxDelay = (case maxDelayMs options of None \<Rightarrow> Finite 30000 | Some m \<Rightarrow> m)
      in retryLoop eng fn (maxRetries options) (baseDelayMs options) maxDelay context 0
           ThrownOther w [])"



text \<open>
  A run of the operation from the state \<open>w\<close> in which the first \<open>k\<close> invocations throw
  and the next one returns \<open>v\<close>, leaving the state \<open>w'\<close>.
\<close>

fun failsThenSucceeds ::
  "('w \<Rightarrow> (thrown + 'a) \<times> 'w) \<Rightarrow> nat \<Rightarrow> 'w \<Rightarrow> 'a \<Rightarrow> 'w \<Rightarrow> bool" where
  "failsThenSucceeds fn 0 w v w' = (fn w = (Inr v, w'))"
| "failsThenSucceeds fn (Suc k) w v w' =
     (\<exists>e w1. fn w = (Inl e, w1) \<and> failsThenSucceeds fn k w1 v w')"

section \<open>Service registry and circuit breaker\<close>

text \<open>
  The class \<open>ServiceRegistry\<close>. Dates are integers (milliseconds since the epoch), and
  every \<open>new Date()\<close> or \<open>Date.now()\<close> of the source is a reading of the clock that the
  caller of the model supplies, one argument per reading, in the order the source takes
  them. The three numbers of the configuration are integers (the source reads them with
  \<open>parseInt\<close>; a variable that does not parse gives NaN, which is outside the model).
  The logger is not modelled.
\<close>

datatype ServiceStatus = HEALTHY | DEGRADED | UNHEALTHY | UNKNOWN

record ServiceInfo =
  name :: string
  url :: string
  version :: "string option"
  status :: ServiceStatus
  lastCheck :: int
  consecutiveFailures :: int
  metadata :: "(string \<times> jsval) list option"

datatype ServiceCircuitState = CLOSED | OPEN | HALF_OPEN

record CircuitBreakerConfig =
  failureThreshold :: int
  successThreshold :: int
  timeout :: int

definition DEFAULT_CIRCUIT_CONFIG :: CircuitBreakerConfig where
  "DEFAULT_CIRCUIT_CONFIG =
     \<lparr>failureThreshold = 5, successThreshold = 2, timeout = 30000\<rparr>"

record CircuitBreakerState =
  state :: ServiceCircuitState
  failures :: int
  successes :: int
  lastFailureTime :: "int option"
  nextRetryTime :: "int option"

text \<open>
  The two private maps and the configuration of one \<open>ServiceRegistry\<close> instance. The
  source mutates the entry objects in place; since each object is reachable through its
  map only, the model writes the changed entry back under the same key.
\<close>

record ServiceRegistry =
  services :: "string \<rightharpoonup> ServiceInfo"
  circuitBreakers :: "string \<rightharpoonup> CircuitBreakerState"
  circuitConfig :: CircuitBreakerConfig

definition newServiceRegistry :: "CircuitBreakerConfig \<Rightarrow> ServiceRegistry" where
  "newServiceRegistry cfg =
     \<lparr>services = Map.empty, circuitBreakers = Map.empty, circuitConfig = cfg\<rparr>"

definition register ::
  "ServiceRegistry \<Rightarrow> string \<Rightarrow> string \<Rightarrow> (string \<times> jsval) list option \<Rightarrow> int
    \<Rightarrow> ServiceRegistry" where
  "register reg n u md now =
     reg\<lparr>services := (services reg)(n \<mapsto>
            \<lparr>name = n, url = u, version = None, status = UNKNOWN, lastCheck = now,
             consecutiveFailures = 0, metadata = md\<rparr>),
         circuitBreakers := (circuitBreakers reg)(n \<mapsto>
            \<lparr>state = CLOSED, failures = 0, successes = 0,
             lastFailureTime = None, nextRetryTime = None\<rparr>)\<rparr>"

text \<open>
  \<open>getServiceUrl\<close> returns the URL, or \<open>None\<close> for the source's \<open>null\<close>, together with
  the registry after the call (an open circuit whose retry time has come is moved to
  half-open). The clock is read only when the circuit is open and has a retry time.
\<close>

definition getServiceUrl ::
  "ServiceRegistry \<Rightarrow> string \<Rightarrow> int \<Rightarrow> string option \<times> ServiceRegistry" where
  "getServiceUrl reg n now =
     (case services reg n of
        None \<Rightarrow> (None, reg)
      | Some service \<Rightarrow>
          (case circuitBreakers reg n of
             None \<Rightarrow> (Some (url service), reg)
           | Some circuit \<Rightarrow>
               if state circuit = OPEN then
                 (case nextRetryTime circuit of
                    None \<Rightarrow> (None, reg)
                  | Some t \<Rightarrow>
                      if now \<ge> t then
                        (Some (url service),
                         reg\<lparr>circuitBreakers :=
                           (circuitBreakers reg)(n \<mapsto> circuit\<lparr>state := HALF_OPEN\<rparr>)\<rparr>)
                      else (None, reg))
               else (Some (url service), reg)))"

definition getService :: "ServiceRegistry \<Rightarrow> string \<Rightarrow> ServiceInfo option" where
  "getService reg n = services reg n"

definition recordSuccess :: "ServiceRegistry \<Rightarrow> string \<Rightarrow> int \<Rightarrow> ServiceRegistry" where
  "recordSuccess reg n now =
     (case circuitBreakers reg n of
        None \<Rightarrow> reg
      | Some circuit \<Rightarrow>
          let c1 = circuit\<lparr>failures := 0, successes := successes circuit + 1\<rparr>;
              c2 = (if state c1 = HALF_OPEN
                      \<and> successes c1 \<ge> successThreshold (circuitConfig reg)
                    then c1\<lparr>state := CLOSED, successes := 0\<rparr> else c1);
              reg1 = reg\<lparr>circuitBreakers := (circuitBreakers reg)(n \<mapsto> c2)\<rparr>
          in (case services reg1 n of
                None \<Rightarrow> reg1
              | Some service \<Rightarrow>
                  reg1\<lparr>services := (services reg1)(n \<mapsto>
                    service\<lparr>status := HEALTHY, consecutiveFailures := 0,
                            lastCheck := now\<rparr>)\<rparr>))"

definition tripCircuit ::
  "CircuitBreakerConfig \<Rightarrow> CircuitBreakerState \<Rightarrow> int \<Rightarrow> CircuitBreakerState" where
  "tripCircuit cfg circuit now =
     circuit\<lparr>state := OPEN, nextRetryTime := Some (now + timeout cfg)\<rparr>"

text \<open>
  \<open>recordFailure\<close> reads the clock up to three times: \<open>tFailure\<close> for
  \<open>lastFailureTime\<close>, \<open>tTrip\<close> for the \<open>Date.now()\<close> of \<open>tripCircuit\<close> (read only when
  the circuit trips), and \<open>tCheck\<close> for the entry's \<open>lastCheck\<close>.
\<close>

definition recordFailure ::
  "ServiceRegistry \<Rightarrow> string \<Rightarrow> int \<Rightarrow> int \<Rightarrow> int \<Rightarrow> ServiceRegistry" where
  "recordFailure reg n tFailure tTrip tCheck =
     (case circuitBreakers reg n of
        None \<Rightarrow> reg
      | Some circuit \<Rightarrow>
          let c1 = circuit\<lparr>failures := failures circuit + 1, successes := 0,
                           lastFailureTime := Some tFailure\<rparr>;
              c2 = (if state c1 = HALF_OPEN then tripCircuit (circuitConfig reg) c1 tTrip
                    else if state c1 = CLOSED then
                      (if failures c1 \<ge> failureThreshold (circuitConfig reg)
                       then tripCircuit (circuitConfig reg) c1 tTrip else c1)
                    else c1);
              reg1 = reg\<lparr>circuitBreakers := (circuitBreakers reg)(n \<mapsto> c2)\<rparr>
          in (case services reg1 n of
                None \<Rightarrow> reg1
              | Some service \<Rightarrow>
                  reg1\<lparr>services := (services reg1)(n \<mapsto>
                    service\<lparr>consecutiveFailures := consecutiveFailures service + 1,
                            status := (if state c2 = OPEN then UNHEALTHY else DEGRADED),
                            lastCheck := tCheck\<rparr>)\<rparr>))"

definition getCircuitState :: "ServiceRegistry \<Rightarrow> string \<Rightarrow> ServiceCircuitState option" where
  "getCircuitState reg n = map_option state (circuitBreakers reg n)"

text \<open>
  A run of consecutive \<open>recordFailure\<close> calls for one service, each with its own three
  clock readings, and nothing in between.
\<close>

fun recordFailures ::
  "ServiceRegistry \<Rightarrow> string \<Rightarrow> (int \<times> int \<times> int) list \<Rightarrow> ServiceRegistry" where
  "recordFailures reg n [] = reg"
| "recordFailures reg n ((tFailure, tTrip, tCheck) # ts) =
     recordFailures (recordFailure reg n tFailure tTrip tCheck) n ts"

text \<open>
  A registry to evaluate the operations on: the default configuration and one registered
  service; the same registry after five consecutive failures, which open the circuit; and
  that one after a \<open>getServiceUrl\<close> call past the retry time, which makes it half-open.
\<close>

definition reportsRegistry :: ServiceRegistry where
  "reportsRegistry =
     register (newServiceRegistry DEFAULT_CIRCUIT_CONFIG)
       ''reports'' ''http://localhost:3007'' None 0"

definition openRegistry :: ServiceRegistry where
  "openRegistry =
     recordFailures reportsRegistry ''reports''
       [(1000, 1000, 1000), (1001, 1001, 1001), (1002, 1002, 1002), (1003, 1003, 1003),
        (1004, 1005, 1006)]"

definition halfOpenRegistry :: ServiceRegistry where
  "halfOpenRegistry = snd (getServiceUrl openRegistry ''reports'' 40000)"

section \<open>Properties of the job scheduler\<close>

lemma processJob_completed:
  assumes "markJobActive (jobsService this) (Job.id' j) (db s) = (Inr (), d1)"
    and "executeJob this j d1 = (Inr r, d2)"
    and "markJobCompleted (jobsService this) (Job.id' j) r d2 = (Inr (), d3)"
  shows "processJob this j s =
           (Inr (), s\<lparr>calls := calls s @ [MarkJobActive (Job.id' j), ExecuteJob (Job.id' j),
                                            MarkJobCompleted (Job.id' j) r],
                      db := d3\<rparr>)"
  using assms by (simp add: processJob_def tryCatch_def await_def invoke_def)

lemma processJob_failed:
  assumes "markJobActive (jobsService this) (Job.id' j) (db s) = (Inr (), d1)"
    and "executeJob this j d1 = (Inl e, d2)" and "\<not> isNullish e"
    and "stringifies (property e ''message'')"
    and "markJobFailed (jobsService this) (Job.id' j) (property e ''message'')
           (property e ''stack'') d2 = (Inr (), d3)"
  shows "processJob this j s =
           (Inr (), s\<lparr>calls := calls s @ [MarkJobActive (Job.id' j), ExecuteJob (Job.id' j),
                          MarkJobFailed (Job.id' j) (property e ''message'')
                            (property e ''stack'')],
                      db := d3\<rparr>)"
  using assms
  by (simp add: processJob_def tryCatch_def await_def invoke_def evaluated_def getProp_def
      interpolate_def returns_def)

lemma typeError_is_loggable:
  "\<not> isNullish (typeError eng site) \<and> stringifies (property (typeError eng site) ''message'')"
  by (simp add: isNullish_def typeError_def)

text \<open>
  No step of a cycle changes the in-progress flag: from the moment \<open>processJobs\<close> has
  set it until its \<open>finally\<close> clears it, every state of the cycle has the flag set, so
  a call of \<open>processJobs\<close> that arrives during the cycle meets the guard.
\<close>

lemma keepsFlag_invoke: "keepsFlag (invoke c m)"
  by (simp add: keepsFlag_def invoke_def split: prod.splits)

lemma keepsFlag_returns: "keepsFlag (returns a)"
  by (simp add: keepsFlag_def returns_def)

lemma keepsFlag_evaluated: "keepsFlag (evaluated r)"
  by (simp add: keepsFlag_def evaluated_def)

lemma keepsFlag_interpolate: "keepsFlag (interpolate eng site v)"
  by (simp add: keepsFlag_def interpolate_def returns_def throw_def)

lemma keepsFlag_await:
  assumes "keepsFlag m" and "\<And>a. keepsFlag (f a)"
  shows "keepsFlag (await m f)"
  unfolding keepsFlag_def
proof
  fix s
  obtain r s1 where step: "m s = (r, s1)" by (cases "m s")
  from assms(1) have "isRunning (snd (m s)) = isRunning s" by (simp add: keepsFlag_def)
  with step have s1: "isRunning s1 = isRunning s" by simp
  show "isRunning (snd (await m f s)) = isRunning s"
  proof (cases r)
    case (Inl e)
    with step s1 show ?thesis by (simp add: await_def)
  next
    case (Inr a)
    from assms(2) [of a] have "isRunning (snd (f a s1)) = isRunning s1"
      by (simp add: keepsFlag_def)
    with Inr step s1 show ?thesis by (simp add: await_def)
  qed
qed

lemma keepsFlag_promoteDelayedJobs: "keepsFlag promoteDelayedJobs"
  unfolding promoteDelayedJobs_def by (rule keepsFlag_invoke)

lemma keepsFlag_tryCatch:
  assumes "keepsFlag m" and "\<And>e. keepsFlag (h e)"
  shows "keepsFlag (tryCatch m h)"
  unfolding keepsFlag_def
proof
  fix s
  obtain r s1 where step: "m s = (r, s1)" by (cases "m s")
  from assms(1) have "isRunning (snd (m s)) = isRunning s" by (simp add: keepsFlag_def)
  with step have s1: "isRunning s1 = isRunning s" by simp
  show "isRunning (snd (tryCatch m h s)) = isRunning s"
  proof (cases r)
    case (Inl e)
    from assms(2) [of e] have "isRunning (snd (h e s1)) = isRunning s1"
      by (simp add: keepsFlag_def)
    with Inl step s1 show ?thesis by (simp add: tryCatch_def)
  next
    case (Inr a)
    with step s1 show ?thesis by (simp add: tryCatch_def)
  qed
qed

lemma keepsFlag_forEach:
  assumes "\<And>x. keepsFlag (f x)"
  shows "keepsFlag (forEach xs f)"
  unfolding keepsFlag_def
proof
  fix s
  show "isRunning (snd (forEach xs f s)) = isRunning s"
  proof (induction xs arbitrary: s)
    case Nil
    then show ?case by simp
  next
    case (Cons x xs)
    obtain r s1 where step: "f x s = (r, s1)" by (cases "f x s")
    from assms [of x] have "isRunning (snd (f x s)) = isRunning s"
      by (simp add: keepsFlag_def)
    with step have s1: "isRunning s1 = isRunning s" by simp
    show ?case
    proof (cases r)
      case (Inl e)
      with step s1 show ?thesis by simp
    next
      case (Inr u)
      with step s1 Cons.IH [of s1] show ?thesis by simp
    qed
  qed
qed

lemma keepsFlag_processJob: "keepsFlag (processJob this j)"
  unfolding processJob_def
proof (rule keepsFlag_tryCatch)
  show "keepsFlag
     (await (invoke (MarkJobActive (Job.id' j)) (markJobActive (jobsService this) (Job.id' j)))
        (\<lambda>u. await (invoke (ExecuteJob (Job.id' j)) (executeJob this j))
              (\<lambda>result. invoke (MarkJobCompleted (Job.id' j) result)
                           (markJobCompleted (jobsService this) (Job.id' j) result))))"
    by (rule keepsFlag_await [OF keepsFlag_invoke])
       (rule keepsFlag_await [OF keepsFlag_invoke], rule keepsFlag_invoke)
next
  fix error
  show "keepsFlag
     (await (evaluated (getProp (engine this) ''error.message'' error ''message''))
        (\<lambda>message. await (interpolate (engine this) ''${error.message}'' message)
          (\<lambda>u. await (evaluated (getProp (engine this) ''error.stack'' error ''stack''))
              (\<lambda>stack. invoke (MarkJobFailed (Job.id' j) message stack)
                          (markJobFailed (jobsService this) (Job.id' j) message stack)))))"
    by (rule keepsFlag_await [OF keepsFlag_evaluated])
       (rule keepsFlag_await [OF keepsFlag_interpolate],
        rule keepsFlag_await [OF keepsFlag_evaluated], rule keepsFlag_invoke)
qed

lemma keepsFlag_processQueueJobs: "keepsFlag (processQueueJobs this queue)"
  unfolding processQueueJobs_def
proof (rule keepsFlag_await [OF keepsFlag_invoke])
  fix pendingJobs :: "Job list"
  have "keepsFlag (forEach pendingJobs (processJob this))"
    by (rule keepsFlag_forEach) (rule keepsFlag_processJob)
  then show "keepsFlag (if length pendingJobs = 0 then returns ()
                   else forEach pendingJobs (processJob this))"
    by (simp add: keepsFlag_returns)
qed

lemma keepsFlag_processingCycle: "keepsFlag (processingCycle this)"
  unfolding processingCycle_def
proof (rule keepsFlag_await [OF keepsFlag_invoke])
  fix queues :: "JobQueue list"
  have "keepsFlag (forEach queues (processQueueJobs this))"
    by (rule keepsFlag_forEach) (rule keepsFlag_processQueueJobs)
  then show "keepsFlag (await (forEach queues (processQueueJobs this))
                         (\<lambda>u. promoteDelayedJobs))"
    by (rule keepsFlag_await) (rule keepsFlag_promoteDelayedJobs)
qed

lemma flag_set_throughout_cycle:
  "isRunning s \<Longrightarrow> isRunning (snd (processingCycle this s))"
  using keepsFlag_processingCycle [of this] by (simp add: keepsFlag_def)

text \<open>
  C5. When the in-progress flag is set, \<open>processJobs\<close> returns at once with the state as
  it was: the flag stays set, the store is untouched, and no call is recorded, so no
  queue or job was read, no job claimed or executed, and no delayed job promoted.
\<close>

theorem processJobs_skips_when_running:
  assumes "isRunning s"
  shows "processJobs this s = (Inr (), s)"
  using assms by (simp add: processJobs_def)

theorem processJobs_skips_when_running_witness:
  "processJobs nothingInjected (exampleScheduler True) = (Inr (), exampleScheduler True)
   \<and> calls (snd (processJobs nothingInjected (exampleScheduler True))) = []
   \<and> job (db (snd (processJobs nothingInjected (exampleScheduler True)))) = exampleJobs"
proof -
  have "isRunning (exampleScheduler True)" by (simp add: exampleScheduler_def)
  from processJobs_skips_when_running [OF this, of nothingInjected]
  show ?thesis by (simp add: exampleScheduler_def)
qed

text \<open>
  C6. The promotion step never fails and changes nothing but the \<open>job\<close> table, row by
  row: a row with status \<open>delayed\<close> and a \<open>delayUntil\<close> at or before the clock reading gets
  status \<open>pending\<close> and no \<open>delayUntil\<close>, and keeps its other columns; every other row
  (a pending one, a delayed one that is not due or has no \<open>delayUntil\<close>) is unchanged;
  and no row that was \<open>delayed\<close> is \<open>active\<close> afterwards.
\<close>

theorem promoteDelayedJobs_promotes_exactly_due:
  "fst (promoteDelayedJobs s) = Inr ()
   \<and> length (job (db (snd (promoteDelayedJobs s)))) = length (job (db s))
   \<and> jobQueue (db (snd (promoteDelayedJobs s))) = jobQueue (db s)
   \<and> isRunning (snd (promoteDelayedJobs s)) = isRunning s
   \<and> (\<forall>i < length (job (db s)).
        (Job.status (job (db s) ! i) = ''delayed''
           \<and> (\<exists>t. Job.delayUntil (job (db s) ! i) = Some t \<and> t \<le> clock (db s))
         \<longrightarrow> job (db (snd (promoteDelayedJobs s))) ! i =
               (job (db s) ! i)\<lparr>Job.status := ''pending'', Job.delayUntil := None\<rparr>)
      \<and> (\<not> (Job.status (job (db s) ! i) = ''delayed''
              \<and> (\<exists>t. Job.delayUntil (job (db s) ! i) = Some t \<and> t \<le> clock (db s)))
         \<longrightarrow> job (db (snd (promoteDelayedJobs s))) ! i = job (db s) ! i)
      \<and> (Job.status (job (db s) ! i) = ''delayed''
         \<longrightarrow> Job.status (job (db (snd (promoteDelayedJobs s))) ! i) \<noteq> ''active''))"
  by (auto simp add: promoteDelayedJobs_def invoke_def updateMany_def Let_def
      split: option.splits)

theorem promoteDelayedJobs_promotes_exactly_due_witness:
  "length (job (db (snd (promoteDelayedJobs (exampleScheduler False))))) = 5
   \<and> job (db (snd (promoteDelayedJobs (exampleScheduler False)))) ! 0 = exampleJobs ! 0
   \<and> job (db (snd (promoteDelayedJobs (exampleScheduler False)))) ! 1 =
       (exampleJobs ! 1)\<lparr>Job.status := ''pending'', Job.delayUntil := None\<rparr>
   \<and> Job.status (exampleJobs ! 1) = ''delayed''
   \<and> Job.delayUntil (exampleJobs ! 1) = Some 900
   \<and> job (db (snd (promoteDelayedJobs (exampleScheduler False)))) ! 2 = exampleJobs ! 2
   \<and> Job.status (exampleJobs ! 2) = ''delayed''
   \<and> Job.delayUntil (exampleJobs ! 2) = Some 1001
   \<and> job (db (snd (promoteDelayedJobs (exampleScheduler False)))) ! 3 = exampleJobs ! 3
   \<and> job (db (snd (promoteDelayedJobs (exampleScheduler False)))) ! 4 = exampleJobs ! 4"
proof -
  have len: "length exampleJobs = 5" by (simp add: exampleJobs_def)
  have jobs: "job (db (exampleScheduler False)) = exampleJobs"
    and clk: "clock (db (exampleScheduler False)) = 1000"
    by (simp_all add: exampleScheduler_def)
  let ?after = "job (db (snd (promoteDelayedJobs (exampleScheduler False))))"
  from promoteDelayedJobs_promotes_exactly_due [of "exampleScheduler False"]
  have rows: "\<forall>i < 5.
        (Job.status (exampleJobs ! i) = ''delayed''
           \<and> (\<exists>t. Job.delayUntil (exampleJobs ! i) = Some t \<and> t \<le> 1000)
         \<longrightarrow> ?after ! i =
               (exampleJobs ! i)\<lparr>Job.status := ''pending'', Job.delayUntil := None\<rparr>)
      \<and> (\<not> (Job.status (exampleJobs ! i) = ''delayed''
              \<and> (\<exists>t. Job.delayUntil (exampleJobs ! i) = Some t \<and> t \<le> 1000))
         \<longrightarrow> ?after ! i = exampleJobs ! i)"
    and n: "length ?after = 5"
    by (simp_all add: jobs clk len)
  have r0: "?after ! 0 = exampleJobs ! 0" using rows by (simp add: exampleJobs_def)
  have r1: "?after ! 1 = (exampleJobs ! 1)\<lparr>Job.status := ''pending'', Job.delayUntil := None\<rparr>"
    using rows by (simp add: exampleJobs_def)
  have r2: "?after ! 2 = exampleJobs ! 2" using rows by (simp add: exampleJobs_def)
  have r3: "?after ! 3 = exampleJobs ! 3" using rows by (simp add: exampleJobs_def)
  have r4: "?after ! 4 = exampleJobs ! 4" using rows by (simp add: exampleJobs_def)
  have "Job.status (exampleJobs ! 1) = ''delayed''"
    "Job.delayUntil (exampleJobs ! 1) = Some 900"
    "Job.status (exampleJobs ! 2) = ''delayed''"
    "Job.delayUntil (exampleJobs ! 2) = Some 1001"
    by (simp_all add: exampleJobs_def)
  with n r0 r1 r2 r3 r4 show ?thesis by simp
qed

text \<open>
  C7. For a job whose name is none of the \<open>case\<close> labels, \<open>executeJob\<close> does not throw
  and does not touch the store: it returns the result with status \<open>skipped\<close> and the
  reason \<open>Unknown job type: <name>\<close>. In the dispatch loop, once \<open>markJobActive\<close> has
  succeeded, that result goes to \<open>markJobCompleted\<close>, and when that succeeds the loop
  has made these three calls and no \<open>markJobFailed\<close> call for the job.
\<close>

theorem unknown_job_type_is_skipped:
  assumes "Job.name j \<notin> set handlerNames"
  shows "executeJob this j d =
           (Inr \<lparr>JobResult.status = ''skipped'', isMockMode = None, mockModeReason = None,
                 extra = [(''reason'', JStr (''Unknown job type: '' @ Job.name j))]\<rparr>, d)
       \<and> (markJobActive (jobsService this) (Job.id' j) (db s) = (Inr (), d1)
          \<and> markJobCompleted (jobsService this) (Job.id' j)
               \<lparr>JobResult.status = ''skipped'', isMockMode = None, mockModeReason = None,
                extra = [(''reason'', JStr (''Unknown job type: '' @ Job.name j))]\<rparr> d1
              = (Inr (), d2)
          \<longrightarrow> processJob this j s =
                (Inr (), s\<lparr>calls := calls s @
                   [MarkJobActive (Job.id' j), ExecuteJob (Job.id' j),
                    MarkJobCompleted (Job.id' j)
                      \<lparr>JobResult.status = ''skipped'', isMockMode = None,
                       mockModeReason = None,
                       extra = [(''reason'', JStr (''Unknown job type: '' @ Job.name j))]\<rparr>],
                   db := d2\<rparr>))"
proof -
  have exec: "executeJob this j d' =
           (Inr \<lparr>JobResult.status = ''skipped'', isMockMode = None, mockModeReason = None,
                 extra = [(''reason'', JStr (''Unknown job type: '' @ Job.name j))]\<rparr>, d')"
    for d'
    using assms by (simp add: executeJob_def handlerNames_def returns_def)
  show ?thesis
    using exec [of d] processJob_completed [OF _ exec [of d1], of s d2]
    by blast
qed

lemmas example_service_defs = nothingInjected_def statusJobsService_def setStatus_def
  exampleScheduler_def

theorem unknown_job_type_is_skipped_witness:
  "executeJob nothingInjected (exampleJobs ! 0) (db (exampleScheduler False)) =
     (Inr \<lparr>JobResult.status = ''skipped'', isMockMode = None, mockModeReason = None,
           extra = [(''reason'', JStr ''Unknown job type: rebuild-cache'')]\<rparr>,
      db (exampleScheduler False))
   \<and> calls (snd (processJob nothingInjected (exampleJobs ! 0) (exampleScheduler False))) =
       [MarkJobActive ''j1'', ExecuteJob ''j1'',
        MarkJobCompleted ''j1''
          \<lparr>JobResult.status = ''skipped'', isMockMode = None, mockModeReason = None,
           extra = [(''reason'', JStr ''Unknown job type: rebuild-cache'')]\<rparr>]
   \<and> map Job.status
        (job (db (snd (processJob nothingInjected (exampleJobs ! 0) (exampleScheduler False)))))
       = [''completed'', ''delayed'', ''delayed'', ''delayed'', ''active'']"
proof -
  let ?s = "exampleScheduler False"
  let ?j = "exampleJobs ! 0"
  let ?d1 = "snd (setStatus ''j1'' ''active'' (db ?s))"
  let ?d2 = "snd (setStatus ''j1'' ''completed'' ?d1)"
  have j: "Job.name ?j = ''rebuild-cache''" "Job.id' ?j = ''j1''"
    by (simp_all add: exampleJobs_def)
  have unknown: "Job.name ?j \<notin> set handlerNames"
    by (simp add: j handlerNames_def)
  have active: "markJobActive (jobsService nothingInjected) (Job.id' ?j) (db ?s) = (Inr (), ?d1)"
    by (simp add: j nothingInjected_def statusJobsService_def setStatus_def)
  have completed: "markJobCompleted (jobsService nothingInjected) (Job.id' ?j)
       \<lparr>JobResult.status = ''skipped'', isMockMode = None, mockModeReason = None,
        extra = [(''reason'', JStr (''Unknown job type: '' @ Job.name ?j))]\<rparr> ?d1 = (Inr (), ?d2)"
    by (simp add: j nothingInjected_def statusJobsService_def setStatus_def)
  from unknown_job_type_is_skipped [OF unknown, of nothingInjected "db ?s" ?s ?d1 ?d2]
    active completed
  show ?thesis
    by (simp add: j) (simp add: setStatus_def exampleScheduler_def exampleJobs_def)
qed

text \<open>
  C8, as the code has it. For each of the ten job types with a nullable service behind
  it, when that service is absent, \<open>executeJob\<close> does not throw and does not touch the
  store, and returns a result with a status, \<open>isMockMode\<close> true and a \<open>mockModeReason\<close>,
  provided the handler gets as far as its test of the service: the payload is neither
  \<open>null\<close> nor \<open>undefined\<close>, and the value of it that the handler's first log line
  substitutes converts to a string (the two handlers that do not read the payload need
  neither). In the dispatch loop, once \<open>markJobActive\<close> has succeeded, that result goes
  to \<open>markJobCompleted\<close>, and when that succeeds no \<open>markJobFailed\<close> call is made for
  the job.
\<close>

theorem absent_capability_gives_mock_result:
  assumes "capabilityAbsent this (Job.name j)"
    and "ignoresPayload (Job.name j)
         \<or> (\<not> isNullish (Job.data j) \<and> stringifies (loggedValue (Job.name j) (Job.data j)))"
  shows "\<exists>r reason.
           (\<forall>d. executeJob this j d = (Inr r, d))
         \<and> JobResult.status r \<in> {''completed'', ''sent'', ''synced'', ''generated'', ''delivered''}
         \<and> isMockMode r = Some True
         \<and> mockModeReason r = Some reason
         \<and> (markJobActive (jobsService this) (Job.id' j) (db s) = (Inr (), d1)
            \<and> markJobCompleted (jobsService this) (Job.id' j) r d1 = (Inr (), d2)
            \<longrightarrow> processJob this j s =
                  (Inr (), s\<lparr>calls := calls s @
                     [MarkJobActive (Job.id' j), ExecuteJob (Job.id' j),
                      MarkJobCompleted (Job.id' j) r],
                     db := d2\<rparr>))"
proof -
  have "\<exists>r reason. (\<forall>d. executeJob this j d = (Inr r, d))
         \<and> JobResult.status r \<in> {''completed'', ''sent'', ''synced'', ''generated'', ''delivered''}
         \<and> isMockMode r = Some True \<and> mockModeReason r = Some reason"
    using assms unfolding capabilityAbsent_def ignoresPayload_def
    by (elim disjE conjE)
      (simp_all add: executeJob_def runEvidenceCollector_def sendScheduledNotifications_def
        sendEmail_def syncJira_def syncServiceNow_def generateExport_def generateReport_def
        cleanupExpiredSessions_def runRetentionPolicies_def deliverWebhook_def
        await_def evaluated_def destructure_def returns_def interpolate_def loggedValue_def
        Let_def)
  then obtain r reason where exec: "\<And>d. executeJob this j d = (Inr r, d)"
    and r: "JobResult.status r \<in> {''completed'', ''sent'', ''synced'', ''generated'', ''delivered''}"
      "isMockMode r = Some True" "mockModeReason r = Some reason"
    by blast
  have "markJobActive (jobsService this) (Job.id' j) (db s) = (Inr (), d1)
      \<and> markJobCompleted (jobsService this) (Job.id' j) r d1 = (Inr (), d2)
      \<longrightarrow> processJob this j s =
            (Inr (), s\<lparr>calls := calls s @
               [MarkJobActive (Job.id' j), ExecuteJob (Job.id' j),
                MarkJobCompleted (Job.id' j) r],
               db := d2\<rparr>)"
    using processJob_completed [OF _ exec [of d1], of s d2] by blast
  with exec r show ?thesis by blast
qed

theorem absent_capability_gives_mock_result_witness:
  "executeJob nothingInjected (exampleJobs ! 3) (db (exampleScheduler False)) =
     (Inr \<lparr>JobResult.status = ''sent'', isMockMode = Some True,
           mockModeReason = Some ''EmailService not injected'',
           extra = [(''to'', JStr ''a@b.c'')]\<rparr>,
      db (exampleScheduler False))
   \<and> calls (snd (processJob nothingInjected (exampleJobs ! 3) (exampleScheduler False))) =
       [MarkJobActive ''j4'', ExecuteJob ''j4'',
        MarkJobCompleted ''j4''
          \<lparr>JobResult.status = ''sent'', isMockMode = Some True,
           mockModeReason = Some ''EmailService not injected'',
           extra = [(''to'', JStr ''a@b.c'')]\<rparr>]"
proof -
  let ?s = "exampleScheduler False"
  let ?j = "exampleJobs ! 3"
  let ?d1 = "snd (setStatus ''j4'' ''active'' (db ?s))"
  let ?d2 = "snd (setStatus ''j4'' ''completed'' ?d1)"
  let ?r = "\<lparr>JobResult.status = ''sent'', isMockMode = Some True,
             mockModeReason = Some ''EmailService not injected'',
             extra = [(''to'', JStr ''a@b.c'')]\<rparr>"
  have j: "Job.name ?j = ''send-email''" "Job.id' ?j = ''j4''"
    "Job.data ?j = JObj [(''to'', JStr ''a@b.c'')]"
    by (simp_all add: exampleJobs_def)
  have absent: "capabilityAbsent nothingInjected (Job.name ?j)"
    by (simp add: j capabilityAbsent_def nothingInjected_def)
  have payload: "ignoresPayload (Job.name ?j)
      \<or> (\<not> isNullish (Job.data ?j) \<and> stringifies (loggedValue (Job.name ?j) (Job.data ?j)))"
    by (simp add: j isNullish_def loggedValue_def)
  have active: "markJobActive (jobsService nothingInjected) (Job.id' ?j) (db ?s) = (Inr (), ?d1)"
    by (simp add: j nothingInjected_def statusJobsService_def setStatus_def)
  have completed:
    "markJobCompleted (jobsService nothingInjected) (Job.id' ?j) r ?d1 = (Inr (), ?d2)" for r
    by (simp add: j nothingInjected_def statusJobsService_def setStatus_def)
  have direct: "executeJob nothingInjected ?j d = (Inr ?r, d)" for d
    by (simp add: j executeJob_def sendEmail_def nothingInjected_def await_def evaluated_def
        destructure_def isNullish_def returns_def interpolate_def)
  from absent_capability_gives_mock_result [OF absent payload, of ?s ?d1 ?d2]
  obtain r where exec: "\<forall>d. executeJob nothingInjected ?j d = (Inr r, d)"
    and loop: "markJobActive (jobsService nothingInjected) (Job.id' ?j) (db ?s) = (Inr (), ?d1)
            \<and> markJobCompleted (jobsService nothingInjected) (Job.id' ?j) r ?d1 = (Inr (), ?d2)
            \<longrightarrow> processJob nothingInjected ?j ?s =
                  (Inr (), ?s\<lparr>calls := calls ?s @
                     [MarkJobActive (Job.id' ?j), ExecuteJob (Job.id' ?j),
                      MarkJobCompleted (Job.id' ?j) r],
                     db := ?d2\<rparr>)"
    by blast
  from exec direct [of "db ?s"] have r: "r = ?r" by simp
  from loop active completed [of r]
  have "processJob nothingInjected ?j ?s =
          (Inr (), ?s\<lparr>calls := calls ?s @
             [MarkJobActive (Job.id' ?j), ExecuteJob (Job.id' ?j),
              MarkJobCompleted (Job.id' ?j) r],
             db := ?d2\<rparr>)"
    by blast
  then have "calls (snd (processJob nothingInjected ?j ?s)) =
      [MarkJobActive ''j4'', ExecuteJob ''j4'', MarkJobCompleted ''j4'' ?r]"
    by (simp add: j r exampleScheduler_def)
  with direct [of "db ?s"] show ?thesis by simp
qed

text \<open>
  C8, as the claim states it, fails, in a deployment without \<open>EmailService\<close>, for two
  \<open>send-email\<close> jobs. The payload of the first is \<open>null\<close>: the handler destructures the
  payload before it looks at the service, which throws. The payload of the second is
  \<open>{"to": {"toString": 1, "valueOf": 1}}\<close>: the handler logs \<open>Sending email to ${to}\<close>
  before it looks at the service, and the substitution throws. In both cases
  \<open>executeJob\<close> throws, and the dispatch loop calls \<open>markJobFailed\<close> for the job, not
  \<open>markJobCompleted\<close>.
\<close>

theorem absent_capability_gives_mock_result_counterexample:
  "emailService nothingInjected = None
   \<and> capabilityAbsent nothingInjected ''send-email''
   \<and> Job.name (exampleJobs ! 1) = ''send-email''
   \<and> Job.data (exampleJobs ! 1) = JNull
   \<and> isl (fst (executeJob nothingInjected (exampleJobs ! 1) (db (exampleScheduler False))))
   \<and> map callName
        (calls (snd (processJob nothingInjected (exampleJobs ! 1) (exampleScheduler False))))
       = [''markJobActive'', ''executeJob'', ''markJobFailed'']
   \<and> isl (fst (executeJob nothingInjected
        ((exampleJobs ! 1)\<lparr>Job.data :=
           JObj [(''to'', JObj [(''toString'', JNum 1), (''valueOf'', JNum 1)])]\<rparr>)
        (db (exampleScheduler False))))
   \<and> map callName
        (calls (snd (processJob nothingInjected
           ((exampleJobs ! 1)\<lparr>Job.data :=
              JObj [(''to'', JObj [(''toString'', JNum 1), (''valueOf'', JNum 1)])]\<rparr>)
           (exampleScheduler False))))
       = [''markJobActive'', ''executeJob'', ''markJobFailed'']"
proof -
  let ?s = "exampleScheduler False"
  let ?j = "exampleJobs ! 1"
  let ?k = "?j\<lparr>Job.data :=
              JObj [(''to'', JObj [(''toString'', JNum 1), (''valueOf'', JNum 1)])]\<rparr>"
  let ?d1 = "snd (setStatus ''j2'' ''active'' (db ?s))"
  let ?d2 = "snd (setStatus ''j2'' ''failed'' ?d1)"
  let ?e = "typeError exampleEngine ''const { to, subject, html, text } = data''"
  let ?f = "typeError exampleEngine ''${to}''"
  have j: "Job.name ?j = ''send-email''" "Job.data ?j = JNull"
    by (simp_all add: exampleJobs_def)
  have absent: "emailService nothingInjected = None"
    "capabilityAbsent nothingInjected ''send-email''"
    by (simp_all add: capabilityAbsent_def nothingInjected_def)
  have throws: "executeJob nothingInjected ?j d = (Inl ?e, d)" for d
    by (simp add: exampleJobs_def executeJob_def sendEmail_def await_def evaluated_def
        destructure_def isNullish_def nothingInjected_def)
  have throws': "executeJob nothingInjected ?k d = (Inl ?f, d)" for d
    by (simp add: exampleJobs_def executeJob_def sendEmail_def await_def evaluated_def
        destructure_def isNullish_def nothingInjected_def interpolate_def throw_def)
  have active: "markJobActive (jobsService nothingInjected) (Job.id' ?j) (db ?s) = (Inr (), ?d1)"
    "markJobActive (jobsService nothingInjected) (Job.id' ?k) (db ?s) = (Inr (), ?d1)"
    by (simp_all add: exampleJobs_def nothingInjected_def statusJobsService_def setStatus_def)
  have failed: "markJobFailed (jobsService nothingInjected) (Job.id' ?j) m st ?d1 = (Inr (), ?d2)"
    "markJobFailed (jobsService nothingInjected) (Job.id' ?k) m st ?d1 = (Inr (), ?d2)" for m st
    by (simp_all add: exampleJobs_def nothingInjected_def statusJobsService_def setStatus_def)
  have loggable: "\<not> isNullish ?e" "stringifies (property ?e ''message'')"
    "\<not> isNullish ?f" "stringifies (property ?f ''message'')"
    using typeError_is_loggable by blast+
  from processJob_failed [OF active(1) throws [of ?d1] loggable(1,2) failed(1)]
  have c1: "map callName (calls (snd (processJob nothingInjected ?j ?s))) =
      [''markJobActive'', ''executeJob'', ''markJobFailed'']"
    by (simp add: exampleScheduler_def)
  from processJob_failed [OF active(2) throws' [of ?d1] loggable(3,4) failed(2)]
  have c2: "map callName (calls (snd (processJob nothingInjected ?k ?s))) =
      [''markJobActive'', ''executeJob'', ''markJobFailed'']"
    by (simp add: exampleScheduler_def)
  from j absent throws [of "db ?s"] throws' [of "db ?s"] c1 c2 show ?thesis by simp
qed

text \<open>
  A cycle on the example store, from a scheduler that is not running: the one pending
  job, of an unknown type, is claimed, skipped and completed, and then the delayed job
  that is due is promoted.
\<close>

lemma processJobs_example_cycle:
  "calls (snd (processJobs nothingInjected (exampleScheduler False))) =
     [QueueFindMany, JobFindMany ''q1'', MarkJobActive ''j1'', ExecuteJob ''j1'',
      MarkJobCompleted ''j1''
        \<lparr>JobResult.status = ''skipped'', isMockMode = None, mockModeReason = None,
         extra = [(''reason'', JStr ''Unknown job type: rebuild-cache'')]\<rparr>,
      JobUpdateMany]
   \<and> map Job.status (job (db (snd (processJobs nothingInjected (exampleScheduler False))))) =
      [''completed'', ''pending'', ''delayed'', ''delayed'', ''active'']"
  by (simp add: processJobs_def processingCycle_def tryCatch_def await_def invoke_def
      returns_def processQueueJobs_def findPendingJobs_def processJob_def executeJob_def
      promoteDelayedJobs_def updateMany_def Let_def
      nothingInjected_def statusJobsService_def setStatus_def exampleScheduler_def
      exampleJobs_def)

text \<open>
  \<open>processJobs\<close> never throws: whatever is thrown inside a cycle is caught. A call
  that starts a cycle (the flag was clear) leaves the flag clear when it returns.
\<close>

theorem processJobs_never_throws:
  "fst (processJobs this s) = Inr ()
   \<and> (\<not> isRunning s \<longrightarrow> \<not> isRunning (snd (processJobs this s)))"
  by (simp add: processJobs_def tryCatch_def returns_def split: prod.splits sum.splits)

theorem processJobs_never_throws_witness:
  "fst (processJobs nothingInjected (exampleScheduler False)) = Inr ()
   \<and> \<not> isRunning (exampleScheduler False)
   \<and> \<not> isRunning (snd (processJobs nothingInjected (exampleScheduler False)))"
  using processJobs_never_throws [of nothingInjected "exampleScheduler False"]
  by (simp add: exampleScheduler_def)

text \<open>
  A handler's failure is caught per job: when \<open>executeJob\<close> throws a value that is
  neither \<open>null\<close> nor \<open>undefined\<close> and whose \<open>message\<close> converts to a string for the log
  line, the loop body passes its \<open>message\<close> and \<open>stack\<close> to
  \<open>markJobFailed\<close> and, when that succeeds, ends normally, so the loop goes on to the
  next job.
\<close>

theorem handler_failure_is_caught:
  assumes "markJobActive (jobsService this) (Job.id' j) (db s) = (Inr (), d1)"
    and "executeJob this j d1 = (Inl e, d2)" and "\<not> isNullish e"
    and "stringifies (property e ''message'')"
    and "markJobFailed (jobsService this) (Job.id' j) (property e ''message'')
           (property e ''stack'') d2 = (Inr (), d3)"
  shows "processJob this j s =
           (Inr (), s\<lparr>calls := calls s @ [MarkJobActive (Job.id' j), ExecuteJob (Job.id' j),
                          MarkJobFailed (Job.id' j) (property e ''message'')
                            (property e ''stack'')],
                      db := d3\<rparr>)"
  using processJob_failed [OF assms] .

theorem handler_failure_is_caught_witness:
  "fst (processJob nothingInjected (exampleJobs ! 1) (exampleScheduler False)) = Inr ()
   \<and> map Job.status
        (job (db (snd (processJob nothingInjected (exampleJobs ! 1) (exampleScheduler False)))))
       = [''pending'', ''failed'', ''delayed'', ''delayed'', ''active'']"
proof -
  let ?s = "exampleScheduler False"
  let ?j = "exampleJobs ! 1"
  let ?d1 = "snd (setStatus ''j2'' ''active'' (db ?s))"
  let ?d2 = "snd (setStatus ''j2'' ''failed'' ?d1)"
  let ?e = "typeError exampleEngine ''const { to, subject, html, text } = data''"
  have throws: "executeJob nothingInjected ?j ?d1 = (Inl ?e, ?d1)"
    by (simp add: exampleJobs_def executeJob_def sendEmail_def await_def evaluated_def
        destructure_def isNullish_def nothingInjected_def)
  have active: "markJobActive (jobsService nothingInjected) (Job.id' ?j) (db ?s) = (Inr (), ?d1)"
    by (simp add: exampleJobs_def nothingInjected_def statusJobsService_def setStatus_def)
  have failed: "markJobFailed (jobsService nothingInjected) (Job.id' ?j)
      (property ?e ''message'') (property ?e ''stack'') ?d1 = (Inr (), ?d2)"
    by (simp add: exampleJobs_def nothingInjected_def statusJobsService_def setStatus_def)
  have loggable: "\<not> isNullish ?e" "stringifies (property ?e ''message'')"
    using typeError_is_loggable by blast+
  from handler_failure_is_caught [OF active throws loggable failed]
  show ?thesis by (simp add: setStatus_def exampleScheduler_def exampleJobs_def)
qed

text \<open>
  The jobs a queue's batch is drawn from: at most \<open>concurrency\<close> of them, all pending
  jobs of that queue, in descending order of priority, and among jobs of one priority in
  ascending order of creation time.
\<close>

theorem findPendingJobs_selection:
  "length (findPendingJobs qid n rows) \<le> n
   \<and> set (findPendingJobs qid n rows)
       \<subseteq> {j \<in> set rows. Job.queueId j = qid \<and> Job.status j = ''pending''}
   \<and> sorted (map (\<lambda>j. - Job.priority j) (findPendingJobs qid n rows))
   \<and> (\<forall>p. sorted (map Job.createdAt
              (filter (\<lambda>j. - Job.priority j = p) (findPendingJobs qid n rows))))"
proof -
  let ?xs = "sort_key Job.createdAt
       (filter (\<lambda>j. Job.queueId j = qid \<and> Job.status j = ''pending'') rows)"
  let ?ys = "sort_key (\<lambda>j. - Job.priority j) ?xs"
  have "sorted (map (\<lambda>j. - Job.priority j) ?ys)"
    by (rule sorted_sort_key)
  then have byPriority: "sorted (map (\<lambda>j. - Job.priority j) (take n ?ys))"
    by (simp add: take_map [symmetric] sorted_wrt_take)
  have members: "set (take n ?ys)
      \<subseteq> {j \<in> set rows. Job.queueId j = qid \<and> Job.status j = ''pending''}"
    using set_take_subset [of n ?ys] by auto
  have byCreation: "sorted (map Job.createdAt (filter (\<lambda>j. - Job.priority j = p) (take n ?ys)))"
    for p
  proof -
    have "sorted (map Job.createdAt ?xs)" by (rule sorted_sort_key)
    then have "sorted (map Job.createdAt (filter (\<lambda>j. - Job.priority j = p) ?xs))"
      by (rule sorted_filter)
    then have "sorted (map Job.createdAt (filter (\<lambda>j. - Job.priority j = p) ?ys))"
      by (simp only: sort_key_stable)
    moreover have "filter (\<lambda>j. - Job.priority j = p) ?ys =
        filter (\<lambda>j. - Job.priority j = p) (take n ?ys)
        @ filter (\<lambda>j. - Job.priority j = p) (drop n ?ys)"
      by (simp only: filter_append [symmetric] append_take_drop_id)
    ultimately show ?thesis by (simp add: sorted_append)
  qed
  from byPriority members byCreation show ?thesis by (simp add: findPendingJobs_def)
qed

theorem findPendingJobs_selection_witness:
  "map Job.id' (findPendingJobs ''q1'' 2
     [\<lparr>Job.id' = ''a'', queueId = ''q1'', Job.name = ''send-email'', data = JObj [],
       Job.status = ''pending'', priority = 0, createdAt = 30, delayUntil = None\<rparr>,
      \<lparr>Job.id' = ''b'', queueId = ''q1'', Job.name = ''send-email'', data = JObj [],
       Job.status = ''pending'', priority = 5, createdAt = 20, delayUntil = None\<rparr>,
      \<lparr>Job.id' = ''c'', queueId = ''q2'', Job.name = ''send-email'', data = JObj [],
       Job.status = ''pending'', priority = 9, createdAt = 10, delayUntil = None\<rparr>,
      \<lparr>Job.id' = ''d'', queueId = ''q1'', Job.name = ''send-email'', data = JObj [],
       Job.status = ''pending'', priority = 5, createdAt = 10, delayUntil = None\<rparr>,
      \<lparr>Job.id' = ''e'', queueId = ''q1'', Job.name = ''send-email'', data = JObj [],
       Job.status = ''active'', priority = 7, createdAt = 10, delayUntil = None\<rparr>])
   = [''d'', ''b'']"
proof -
  let ?rows = "[\<lparr>Job.id' = ''a'', queueId = ''q1'', Job.name = ''send-email'', data = JObj [],
       Job.status = ''pending'', priority = 0, createdAt = 30, delayUntil = None\<rparr>,
      \<lparr>Job.id' = ''b'', queueId = ''q1'', Job.name = ''send-email'', data = JObj [],
       Job.status = ''pending'', priority = 5, createdAt = 20, delayUntil = None\<rparr>,
      \<lparr>Job.id' = ''c'', queueId = ''q2'', Job.name = ''send-email'', data = JObj [],
       Job.status = ''pending'', priority = 9, createdAt = 10, delayUntil = None\<rparr>,
      \<lparr>Job.id' = ''d'', queueId = ''q1'', Job.name = ''send-email'', data = JObj [],
       Job.status = ''pending'', priority = 5, createdAt = 10, delayUntil = None\<rparr>,
      \<lparr>Job.id' = ''e'', queueId = ''q1'', Job.name = ''send-email'', data = JObj [],
       Job.status = ''active'', priority = 7, createdAt = 10, delayUntil = None\<rparr>]"
  have "map Job.id' (findPendingJobs ''q1'' 2 ?rows) = [''d'', ''b'']"
    by (simp add: findPendingJobs_def)
  with findPendingJobs_selection [of "''q1''" 2 ?rows] show ?thesis by simp
qed

section \<open>Properties of numbers\<close>

text \<open>
  \<open>exponent\<close> is the binary exponent: for \<open>x \<noteq> 0\<close> it is the one integer \<open>e\<close> with
  \<open>2^e \<le> |x| < 2^(e+1)\<close>.
\<close>

lemma bitlen_powi_bounds:
  assumes "0 < a"
  shows "2 powi (bitlen a - 1) \<le> (of_int a :: rat)" and "(of_int a :: rat) < 2 powi (bitlen a)"
proof -
  from assms have ge: "1 \<le> bitlen a" by (auto simp: bitlen_alt_def)
  from bitlen_bounds [OF assms]
  have lo: "2 ^ nat (bitlen a - 1) \<le> a" and hi: "a < 2 ^ nat (bitlen a)" by auto
  from lo have "(of_int (2 ^ nat (bitlen a - 1)) :: rat) \<le> of_int a" by (simp only: of_int_le_iff)
  then show "2 powi (bitlen a - 1) \<le> (of_int a :: rat)"
    using ge by (simp add: power_int_def)
  from hi have "(of_int a :: rat) < of_int (2 ^ nat (bitlen a))" by (simp only: of_int_less_iff)
  then show "(of_int a :: rat) < 2 powi (bitlen a)"
    using ge by (simp add: power_int_def)
qed

lemma exponent_bounds:
  assumes "x \<noteq> 0"
  shows "2 powi (exponent x) \<le> \<bar>x\<bar>" and "\<bar>x\<bar> < 2 powi (exponent x + 1)"
proof -
  obtain a b where q: "quotient_of \<bar>x\<bar> = (a, b)" by (cases "quotient_of \<bar>x\<bar>")
  from quotient_of_div [OF q] have x: "\<bar>x\<bar> = of_int a / of_int b" .
  from quotient_of_denom_pos [OF q] have b: "0 < b" .
  from assms have "0 < \<bar>x\<bar>" by simp
  with x b have a: "0 < a" by (simp add: zero_less_divide_iff)
  let ?k = "bitlen a - bitlen b"
  note A = bitlen_powi_bounds [OF a] and B = bitlen_powi_bounds [OF b]
  have pos: "(0::rat) < 2 powi n" for n by simp
  have "of_int a / of_int b < (2 powi (bitlen a) :: rat) / 2 powi (bitlen b - 1)"
    using A(2) B(1) a pos [of "bitlen b - 1"]
    by (intro frac_less) simp_all
  also have "\<dots> = 2 powi (bitlen a - (bitlen b - 1))"
    by (rule power_int_diff [symmetric]) simp
  also have "bitlen a - (bitlen b - 1) = ?k + 1" by simp
  finally have hi: "\<bar>x\<bar> < 2 powi (?k + 1)" by (simp only: x)
  have "(2 powi (bitlen a - 1) :: rat) / 2 powi (bitlen b) < of_int a / of_int b"
    using A(1) B(2) b pos [of "bitlen a - 1"]
    by (intro frac_less2) (simp_all)
  moreover have "(2 powi (bitlen a - 1) :: rat) / 2 powi (bitlen b) =
      2 powi (bitlen a - 1 - bitlen b)"
    by (rule power_int_diff [symmetric]) simp
  moreover have "bitlen a - 1 - bitlen b = ?k - 1" by simp
  ultimately have lo: "2 powi (?k - 1) \<le> \<bar>x\<bar>" by (simp only: x)
  show "2 powi (exponent x) \<le> \<bar>x\<bar>"
    using lo by (simp add: exponent_def q Let_def)
  show "\<bar>x\<bar> < 2 powi (exponent x + 1)"
    using hi by (auto simp add: exponent_def q Let_def not_le)
qed

lemma powi_less_cancel:
  assumes "(2::rat) powi m < 2 powi n"
  shows "m < n"
proof (rule ccontr)
  assume "\<not> m < n"
  then have "n \<le> m" by simp
  then have "(2::rat) powi n \<le> 2 powi m" by (rule power_int_increasing) simp
  with assms show False by simp
qed

lemma exponent_unique:
  assumes "2 powi e \<le> \<bar>x\<bar>" and "\<bar>x\<bar> < 2 powi (e + 1)"
  shows "exponent x = e"
proof -
  have "(0::rat) < 2 powi e" by simp
  from this assms(1) have "0 < \<bar>x\<bar>" by (rule less_le_trans)
  then have nz: "x \<noteq> 0" by simp
  note E = exponent_bounds [OF nz]
  have "(2::rat) powi e < 2 powi (exponent x + 1)" using assms(1) E(2) by simp
  then have 1: "e < exponent x + 1" by (rule powi_less_cancel)
  have "(2::rat) powi (exponent x) < 2 powi (e + 1)" using assms(2) E(1) by simp
  then have 2: "exponent x < e + 1" by (rule powi_less_cancel)
  from 1 2 show ?thesis by simp
qed

text \<open>
  Rounding leaves a multiple of the spacing of the doubles at its exponent unchanged,
  short of overflow. So the product of a double and a power of two is exact while it
  is below \<open>2^1024\<close> in magnitude, and every integer below \<open>2^53\<close> in magnitude is a
  double.
\<close>

lemma roundHalfEven_of_int: "roundHalfEven (of_int i) = i"
  by (simp add: roundHalfEven_def)

lemma toDouble_exact:
  assumes "x = of_int j * 2 powi p" and "max (exponent x) (- 1022) - 52 \<le> p"
    and "\<bar>x\<bar> < 2 ^ 1024"
  shows "toDouble x = Finite x"
proof (cases "x = 0")
  case True
  then show ?thesis by (simp add: toDouble_def)
next
  case False
  let ?q = "max (exponent x) (- 1022) - 52"
  let ?u = "(2::rat) powi ?q"
  have "x / ?u = of_int j * 2 powi (p - ?q)"
    by (simp add: assms(1) power_int_diff)
  also have "\<dots> = of_int j * 2 ^ nat (p - ?q)"
    using assms(2) by (simp add: power_int_def)
  also have "\<dots> = of_int (j * 2 ^ nat (p - ?q))" by simp
  finally have "roundHalfEven (x / ?u) = j * 2 ^ nat (p - ?q)"
    by (simp only: roundHalfEven_of_int)
  then have "of_int (roundHalfEven (x / ?u)) * ?u = of_int j * 2 ^ nat (p - ?q) * ?u" by simp
  also have "\<dots> = of_int j * (2 powi (p - ?q) * ?u)"
    using assms(2) by (simp add: power_int_def)
  also have "\<dots> = x"
    by (simp add: assms(1) power_int_add [symmetric])
  finally have y: "of_int (roundHalfEven (x / ?u)) * ?u = x" .
  show ?thesis
    using False assms(3) unfolding toDouble_def Let_def y by simp
qed

lemma isDouble_scale:
  assumes "isDouble b" and "\<bar>b\<bar> * 2 ^ n < 2 ^ 1024"
  shows "toDouble (b * 2 ^ n) = Finite (b * 2 ^ n)"
proof (cases "b = 0")
  case True
  then show ?thesis by (simp add: toDouble_def)
next
  case False
  define q where "q = max (exponent b) (- 1022) - 52"
  define j where "j = roundHalfEven (b / 2 powi q)"
  define y where "y = of_int j * (2::rat) powi q"
  have "toDouble b =
      (if 2 ^ 1024 \<le> \<bar>y\<bar> then (if 0 < b then PlusInfinity else MinusInfinity) else Finite y)"
    using False unfolding toDouble_def Let_def y_def j_def q_def by simp
  moreover from assms(1) have "toDouble b = Finite b" by (simp only: isDouble_def)
  ultimately have "y = b" by (simp split: if_splits)
  then have b: "b = of_int j * 2 powi q" by (simp only: y_def)
  note E = exponent_bounds [OF False]
  have two: "(2::rat) ^ n = 2 powi (int n)" by (simp add: power_int_def)
  have abs: "\<bar>b * 2 ^ n\<bar> = \<bar>b\<bar> * 2 powi (int n)" by (simp only: abs_mult two) simp
  have "exponent (b * 2 ^ n) = exponent b + int n"
  proof (rule exponent_unique)
    have "2 powi (exponent b + int n) = (2::rat) powi (exponent b) * 2 powi (int n)"
      by (rule power_int_add) simp
    also have "\<dots> \<le> \<bar>b\<bar> * 2 powi (int n)"
      using E(1) by (rule mult_right_mono) simp
    finally show "2 powi (exponent b + int n) \<le> \<bar>b * 2 ^ n\<bar>" by (simp only: abs)
    have "\<bar>b\<bar> * 2 powi (int n) < (2::rat) powi (exponent b + 1) * 2 powi (int n)"
      using E(2) by (rule mult_strict_right_mono) simp
    also have "\<dots> = 2 powi (exponent b + 1 + int n)"
      by (rule power_int_add [symmetric]) simp
    also have "exponent b + 1 + int n = exponent b + int n + 1" by simp
    finally show "\<bar>b * 2 ^ n\<bar> < 2 powi (exponent b + int n + 1)" by (simp only: abs)
  qed
  then have le: "max (exponent (b * 2 ^ n)) (- 1022) - 52 \<le> q + int n"
    by (simp add: q_def)
  from b have "b * 2 ^ n = of_int j * 2 powi q * 2 ^ n"
    by (rule arg_cong [where f = "\<lambda>t. t * 2 ^ n"])
  also have "\<dots> = of_int j * (2 powi q * 2 powi (int n))"
    by (simp only: two mult.assoc)
  also have "2 powi q * 2 powi (int n) = (2::rat) powi (q + int n)"
    by (rule power_int_add [symmetric]) simp
  finally have eq: "b * 2 ^ n = of_int j * 2 powi (q + int n)" .
  have "\<bar>b * 2 ^ n\<bar> = \<bar>b\<bar> * 2 ^ n" by (simp only: abs_mult) simp
  with assms(2) have bound: "\<bar>b * 2 ^ n\<bar> < 2 ^ 1024" by (simp only:)
  from toDouble_exact [OF eq le bound] show ?thesis .
qed

lemma toDouble_of_int:
  assumes "\<bar>k\<bar> < 2 ^ 53"
  shows "toDouble (of_int k) = Finite (of_int k)"
proof (cases "k = 0")
  case True
  then show ?thesis by (simp add: toDouble_def)
next
  case False
  let ?x = "of_int k :: rat"
  have nz: "?x \<noteq> 0" using False by simp
  note E = exponent_bounds [OF nz]
  have "\<bar>?x\<bar> < 2 ^ 53" using assms by (metis of_int_abs of_int_less_numeral_power_cancel_iff)
  then have "\<bar>?x\<bar> < 2 powi 53" by (simp add: power_int_def)
  with E(1) have "(2::rat) powi (exponent ?x) < 2 powi 53" by simp
  then have "exponent ?x < 53" by (rule powi_less_cancel)
  then have le: "max (exponent ?x) (- 1022) - 52 \<le> 0" by simp
  have eq: "?x = of_int k * 2 powi 0" by simp
  have "\<bar>?x\<bar> < 2 ^ 1024" using \<open>\<bar>?x\<bar> < 2 ^ 53\<close> by (rule less_trans) simp
  from toDouble_exact [OF eq le this] show ?thesis .
qed

section \<open>Properties of retry with backoff\<close>

text \<open>
  Within the bounds, the delay is the minimum of the exact product and the cap.
\<close>

lemma isDouble_of_int:
  assumes "\<bar>k\<bar> < 2 ^ 53"
  shows "isDouble (of_int k)"
  using toDouble_of_int [OF assms] by (simp only: isDouble_def)

lemma delayMs_exact:
  assumes "isDouble b" and "n < 1024" and "\<bar>b\<bar> * 2 ^ n < 2 ^ 1024"
  shows "delayMs (Finite b) (Finite m) n = Finite (min (b * 2 ^ n) m)"
proof -
  have "mulNum (Finite b) (mathPow2 n) = toDouble (b * 2 ^ n)"
    using assms(2) by (simp add: mulNum_def mathPow2_def)
  also have "\<dots> = Finite (b * 2 ^ n)" using assms(1,3) by (rule isDouble_scale)
  finally show ?thesis
    by (simp add: delayMs_def mathMin_def numLess_def min_def)
qed










lemma counter_below:
  assumes "numLeq (counter n) mr" and "m < n"
  shows "numLess (counter m) mr" and "numLeq (counter m) mr"
proof -
  have "(of_nat m :: rat) < of_nat n" using assms(2) by simp
  then show "numLess (counter m) mr" and "numLeq (counter m) mr"
    using assms(1) by (cases mr; simp add: numLeq_def numLess_def counter_def)+
qed

lemma retryLoop_succeeds_after:
  assumes "failsThenSucceeds fn k w v w'" and "numLeq (counter (a + k)) mr"
    and "a + k < 2 ^ 53"
  shows "retryLoop eng fn mr base maxDelay ctx a lastError w tr =
           Some (Inr v, w',
                 tr @ concat (map (\<lambda>n. [Invoked, Slept (delayMs base maxDelay n)])
                               [a..<a + k]) @ [Invoked])"
  using assms
proof (induction k arbitrary: a lastError w tr)
  case 0
  then show ?case by (subst retryLoop.simps) simp
next
  case (Suc k)
  from Suc.prems(1) obtain e w1 where fails: "fn w = (Inl e, w1)"
    and rest: "failsThenSucceeds fn k w1 v w'" by auto
  have lt: "a < a + Suc k" by simp
  note below = counter_below [OF Suc.prems(2) lt]
  from Suc.prems(3) have "a < 2 ^ 53" by simp
  then have "int a < 2 ^ 53" by (metis of_nat_less_numeral_power_cancel_iff)
  then have inc: "increment a = Suc a" by (simp only: increment_def if_True)
  have next_ok: "numLeq (counter (Suc a + k)) mr" "Suc a + k < 2 ^ 53"
    using Suc.prems(2,3) by simp_all
  have upt: "[a..<a + Suc k] = a # [Suc a..<Suc a + k]"
    by (simp add: upt_conv_Cons)
  from Suc.IH [OF rest next_ok, of e "tr @ [Invoked, Slept (delayMs base maxDelay a)]"]
  show ?case
    using fails below inc by (subst retryLoop.simps, subst upt) simp
qed

text \<open>
  When the operation throws on its first \<open>k\<close> invocations and then returns, with
  \<open>k\<close> at most \<open>maxRetries\<close> (and below \<open>2^53\<close>), \<open>retryAsync\<close> returns that value after
  \<open>k + 1\<close> invocations, having asked for a wait of
  \<open>Math.min(baseDelayMs * Math.pow(2, n), maxDelayMs)\<close> after each failed attempt \<open>n\<close>.
\<close>

theorem retryAsync_succeeds_after:
  assumes "failsThenSucceeds fn k w v w'" and "numLeq (counter k) (maxRetries options)"
    and "k < 2 ^ 53"
  shows "retryAsync eng fn options ctx w =
           Some (Inr v, w',
                 concat (map (\<lambda>n. [Invoked,
                                    Slept (delayMs (baseDelayMs options)
                                      (case maxDelayMs options of None \<Rightarrow> Finite 30000
                                       | Some m \<Rightarrow> m) n)])
                           [0..<k]) @ [Invoked])"
  using retryLoop_succeeds_after [of fn k w v w' 0 "maxRetries options" eng
      "baseDelayMs options" "case maxDelayMs options of None \<Rightarrow> Finite 30000 | Some m \<Rightarrow> m"
      ctx ThrownOther "[]"] assms
  by (simp add: retryAsync_def)

theorem retryAsync_succeeds_after_witness:
  "retryAsync exampleEngine
     (\<lambda>w::nat. if w < 2 then (Inl (ThrownString ''down''), Suc w) else (Inr ''done'', Suc w))
     \<lparr>maxRetries = Finite 3, baseDelayMs = Finite 1000, maxDelayMs = None\<rparr> (Some ''fetch'') 0 =
   Some (Inr ''done'', 3, [Invoked, Slept (Finite 1000), Invoked, Slept (Finite 2000), Invoked])"
proof -
  let ?fn = "\<lambda>w::nat. if w < 2 then (Inl (ThrownString ''down''), Suc w)
                        else (Inr ''done'', Suc w)"
  let ?options = "\<lparr>maxRetries = Finite 3, baseDelayMs = Finite 1000, maxDelayMs = None\<rparr>"
  have run: "failsThenSucceeds ?fn 2 0 ''done'' 3"
    by (simp add: numeral_2_eq_2 numeral_3_eq_3)
  have few: "numLeq (counter 2) (maxRetries ?options)"
    by (simp add: numLeq_def counter_def)
  have small: "(2::nat) < 2 ^ 53" by simp
  have upt: "[0..<2] = [0, Suc 0]" by (simp add: upt_rec)
  have double: "isDouble 1000" using isDouble_of_int [of 1000] by simp
  have d: "delayMs (Finite 1000) (Finite 30000) 0 = Finite 1000"
    "delayMs (Finite 1000) (Finite 30000) (Suc 0) = Finite 2000"
    using delayMs_exact [OF double, of 0 30000] delayMs_exact [OF double, of "Suc 0" 30000]
    by simp_all
  from retryAsync_succeeds_after [OF run few small, of exampleEngine "Some ''fetch''"]
  show ?thesis by (simp add: upt d)
qed

section \<open>Properties of the service registry\<close>

lemmas registry_example_defs = reportsRegistry_def openRegistry_def register_def
  newServiceRegistry_def DEFAULT_CIRCUIT_CONFIG_def recordFailure_def tripCircuit_def
  Let_def

lemma reportsRegistry_circuit:
  "circuitBreakers reportsRegistry ''reports'' =
     Some \<lparr>state = CLOSED, failures = 0, successes = 0, lastFailureTime = None,
           nextRetryTime = None\<rparr>"
  by (simp add: registry_example_defs)

lemma reportsRegistry_config:
  "circuitConfig reportsRegistry =
     \<lparr>failureThreshold = 5, successThreshold = 2, timeout = 30000\<rparr>"
  by (simp add: registry_example_defs)

lemma openRegistry_circuit:
  "circuitBreakers openRegistry ''reports'' =
     Some \<lparr>state = OPEN, failures = 5, successes = 0, lastFailureTime = Some 1004,
           nextRetryTime = Some 31005\<rparr>"
  by (simp add: registry_example_defs)

lemma openRegistry_service:
  "services openRegistry ''reports'' =
     Some \<lparr>name = ''reports'', url = ''http://localhost:3007'', version = None,
           status = UNHEALTHY, lastCheck = 1006, consecutiveFailures = 5, metadata = None\<rparr>"
  by (simp add: registry_example_defs)

lemma openRegistry_config:
  "circuitConfig openRegistry =
     \<lparr>failureThreshold = 5, successThreshold = 2, timeout = 30000\<rparr>"
  by (simp add: registry_example_defs)

lemma halfOpenRegistry_circuit:
  "circuitBreakers halfOpenRegistry ''reports'' =
     Some \<lparr>state = HALF_OPEN, failures = 5, successes = 0, lastFailureTime = Some 1004,
           nextRetryTime = Some 31005\<rparr>"
  by (simp add: halfOpenRegistry_def getServiceUrl_def openRegistry_circuit
      openRegistry_service)

lemma halfOpenRegistry_service:
  "services halfOpenRegistry ''reports'' =
     Some \<lparr>name = ''reports'', url = ''http://localhost:3007'', version = None,
           status = UNHEALTHY, lastCheck = 1006, consecutiveFailures = 5, metadata = None\<rparr>"
  by (simp add: halfOpenRegistry_def getServiceUrl_def openRegistry_circuit
      openRegistry_service)

lemma halfOpenRegistry_config:
  "circuitConfig halfOpenRegistry =
     \<lparr>failureThreshold = 5, successThreshold = 2, timeout = 30000\<rparr>"
  by (simp add: halfOpenRegistry_def getServiceUrl_def openRegistry_circuit
      openRegistry_service openRegistry_config)

lemma recordFailure_circuitConfig:
  "circuitConfig (recordFailure reg n a b d) = circuitConfig reg"
  by (simp add: recordFailure_def Let_def split: option.splits)

lemma recordFailure_closed_below:
  assumes "circuitBreakers reg n = Some c" and "state c = CLOSED"
    and "failures c + 1 < failureThreshold (circuitConfig reg)"
  shows "circuitBreakers (recordFailure reg n a b d) n =
           Some (c\<lparr>failures := failures c + 1, successes := 0, lastFailureTime := Some a\<rparr>)"
  using assms by (simp add: recordFailure_def Let_def split: option.splits)

lemma recordFailures_closed_below:
  assumes "circuitBreakers reg n = Some c" and "state c = CLOSED"
    and "failures c + int (length ts) < failureThreshold (circuitConfig reg)"
  shows "\<exists>c1. circuitBreakers (recordFailures reg n ts) n = Some c1 \<and> state c1 = CLOSED
            \<and> failures c1 = failures c + int (length ts)
            \<and> nextRetryTime c1 = nextRetryTime c
            \<and> circuitConfig (recordFailures reg n ts) = circuitConfig reg"
  using assms
proof (induction ts arbitrary: reg c)
  case Nil
  then show ?case by simp
next
  case (Cons t ts)
  obtain a b d where t: "t = (a, b, d)" by (cases t) auto
  let ?c = "c\<lparr>failures := failures c + 1, successes := 0, lastFailureTime := Some a\<rparr>"
  let ?reg = "recordFailure reg n a b d"
  from Cons.prems have below: "failures c + 1 < failureThreshold (circuitConfig reg)"
    by simp
  have step: "circuitBreakers ?reg n = Some ?c"
    using recordFailure_closed_below [OF Cons.prems(1) Cons.prems(2) below] .
  have "\<exists>c1. circuitBreakers (recordFailures ?reg n ts) n = Some c1 \<and> state c1 = CLOSED
            \<and> failures c1 = failures ?c + int (length ts)
            \<and> nextRetryTime c1 = nextRetryTime ?c
            \<and> circuitConfig (recordFailures ?reg n ts) = circuitConfig ?reg"
  proof (rule Cons.IH [OF step])
    show "state ?c = CLOSED" using Cons.prems(2) by simp
    show "failures ?c + int (length ts) < failureThreshold (circuitConfig ?reg)"
      using Cons.prems(3) by (simp add: recordFailure_circuitConfig)
  qed
  then obtain c1 where "circuitBreakers (recordFailures ?reg n ts) n = Some c1"
    and "state c1 = CLOSED" and "failures c1 = failures c + 1 + int (length ts)"
    and "nextRetryTime c1 = nextRetryTime c"
    and "circuitConfig (recordFailures ?reg n ts) = circuitConfig reg"
    by (auto simp add: recordFailure_circuitConfig)
  then show ?case by (simp add: t)
qed

lemma recordFailure_closed_trips:
  assumes "circuitBreakers reg n = Some c" and "state c = CLOSED"
    and "failures c + 1 \<ge> failureThreshold (circuitConfig reg)"
  shows "circuitBreakers (recordFailure reg n a b d) n =
           Some (c\<lparr>state := OPEN, failures := failures c + 1, successes := 0,
                   lastFailureTime := Some a,
                   nextRetryTime := Some (b + timeout (circuitConfig reg))\<rparr>)"
  using assms by (simp add: recordFailure_def tripCircuit_def Let_def split: option.splits)

text \<open>
  C1. From a closed circuit, a run of consecutive \<open>recordFailure\<close> calls that keeps the
  failure count below \<open>failureThreshold\<close> leaves the circuit closed, with the count
  advanced by one per call; the next call, the one that makes the count reach
  \<open>failureThreshold\<close>, sets the state to open and \<open>nextRetryTime\<close> to the clock reading
  of that call plus the configured timeout.
\<close>

theorem recordFailure_trips_at_threshold:
  assumes "circuitBreakers reg n = Some c" and "state c = CLOSED"
    and "failures c + int (length ts) < failureThreshold (circuitConfig reg)"
  shows "\<exists>c1. circuitBreakers (recordFailures reg n ts) n = Some c1
            \<and> state c1 = CLOSED
            \<and> failures c1 = failures c + int (length ts)
            \<and> (failures c1 + 1 = failureThreshold (circuitConfig reg) \<longrightarrow>
                 (\<exists>c2. circuitBreakers
                          (recordFailure (recordFailures reg n ts) n tFailure tTrip tCheck) n
                          = Some c2
                    \<and> state c2 = OPEN
                    \<and> failures c2 = failureThreshold (circuitConfig reg)
                    \<and> nextRetryTime c2 = Some (tTrip + timeout (circuitConfig reg))))"
proof -
  from recordFailures_closed_below [OF assms]
  obtain c1 where c1: "circuitBreakers (recordFailures reg n ts) n = Some c1"
    and closed: "state c1 = CLOSED"
    and count: "failures c1 = failures c + int (length ts)"
    and cfg: "circuitConfig (recordFailures reg n ts) = circuitConfig reg"
    by blast
  have "\<exists>c2. circuitBreakers
                (recordFailure (recordFailures reg n ts) n tFailure tTrip tCheck) n = Some c2
          \<and> state c2 = OPEN
          \<and> failures c2 = failureThreshold (circuitConfig reg)
          \<and> nextRetryTime c2 = Some (tTrip + timeout (circuitConfig reg))"
    if reach: "failures c1 + 1 = failureThreshold (circuitConfig reg)"
  proof -
    have "failures c1 + 1 \<ge> failureThreshold (circuitConfig (recordFailures reg n ts))"
      using reach cfg by simp
    from recordFailure_closed_trips [OF c1 closed this, of tFailure tTrip tCheck]
    show ?thesis using reach cfg by simp
  qed
  with c1 closed count show ?thesis by blast
qed

theorem recordFailure_trips_at_threshold_witness:
  "getCircuitState
     (recordFailures reportsRegistry ''reports'' [(1, 1, 1), (2, 2, 2), (3, 3, 3), (4, 4, 4)])
     ''reports'' = Some CLOSED
   \<and> getCircuitState
        (recordFailure
          (recordFailures reportsRegistry ''reports''
            [(1, 1, 1), (2, 2, 2), (3, 3, 3), (4, 4, 4)])
          ''reports'' 5 6 7) ''reports'' = Some OPEN
   \<and> map_option nextRetryTime (circuitBreakers
        (recordFailure
          (recordFailures reportsRegistry ''reports''
            [(1, 1, 1), (2, 2, 2), (3, 3, 3), (4, 4, 4)])
          ''reports'' 5 6 7) ''reports'') = Some (Some 30006)"
proof -
  let ?c = "\<lparr>state = CLOSED, failures = 0, successes = 0, lastFailureTime = None,
             nextRetryTime = None\<rparr>"
  let ?ts = "[(1, 1, 1), (2, 2, 2), (3, 3, 3), (4, 4, 4)] :: (int \<times> int \<times> int) list"
  have closed: "state ?c = CLOSED" by simp
  have below: "failures ?c + int (length ?ts) < failureThreshold (circuitConfig reportsRegistry)"
    by (simp add: reportsRegistry_config)
  from recordFailure_trips_at_threshold [OF reportsRegistry_circuit closed below, of 5 6 7]
  show ?thesis by (auto simp add: getCircuitState_def reportsRegistry_config)
qed

text \<open>
  C2. For a registered service whose circuit is open with retry time \<open>t\<close>: before \<open>t\<close>,
  \<open>getServiceUrl\<close> returns no URL and changes nothing, so the circuit stays open; at or
  after \<open>t\<close> the circuit becomes half-open (and the URL is returned).
\<close>

theorem getServiceUrl_open:
  assumes "services reg n = Some s" and "circuitBreakers reg n = Some c"
    and "state c = OPEN" and "nextRetryTime c = Some t"
  shows "(now < t \<longrightarrow> getServiceUrl reg n now = (None, reg)
                    \<and> getCircuitState (snd (getServiceUrl reg n now)) n = Some OPEN)
       \<and> (t \<le> now \<longrightarrow> getCircuitState (snd (getServiceUrl reg n now)) n = Some HALF_OPEN
                    \<and> fst (getServiceUrl reg n now) = Some (url s))"
  using assms by (simp add: getServiceUrl_def getCircuitState_def)

theorem getServiceUrl_open_witness:
  "getServiceUrl openRegistry ''reports'' 31004 = (None, openRegistry)
   \<and> getCircuitState (snd (getServiceUrl openRegistry ''reports'' 31004)) ''reports''
       = Some OPEN
   \<and> getCircuitState (snd (getServiceUrl openRegistry ''reports'' 31005)) ''reports''
       = Some HALF_OPEN
   \<and> fst (getServiceUrl openRegistry ''reports'' 31005) = Some ''http://localhost:3007''"
proof -
  let ?c = "\<lparr>state = OPEN, failures = 5, successes = 0, lastFailureTime = Some 1004,
             nextRetryTime = Some (31005 :: int)\<rparr>"
  have opn: "state ?c = OPEN" and retry: "nextRetryTime ?c = Some 31005" by simp_all
  from getServiceUrl_open [OF openRegistry_service openRegistry_circuit opn retry, of 31004]
       getServiceUrl_open [OF openRegistry_service openRegistry_circuit opn retry, of 31005]
  show ?thesis by (simp add: getCircuitState_def openRegistry_circuit)
qed

text \<open>
  C3, as the code has it. For a service whose circuit is half-open, one \<open>recordFailure\<close>
  call sets the state to open with \<open>nextRetryTime\<close> the clock reading plus the configured
  timeout, whatever the failure count and the threshold are. The success count is reset
  to 0; the failure count is not reset but incremented, and so is the entry's
  \<open>consecutiveFailures\<close>.
\<close>

theorem recordFailure_half_open:
  assumes "services reg n = Some s" and "circuitBreakers reg n = Some c"
    and "state c = HALF_OPEN"
  shows "circuitBreakers (recordFailure reg n tFailure tTrip tCheck) n =
           Some (c\<lparr>state := OPEN, failures := failures c + 1, successes := 0,
                   lastFailureTime := Some tFailure,
                   nextRetryTime := Some (tTrip + timeout (circuitConfig reg))\<rparr>)
       \<and> services (recordFailure reg n tFailure tTrip tCheck) n =
           Some (s\<lparr>consecutiveFailures := consecutiveFailures s + 1, status := UNHEALTHY,
                   lastCheck := tCheck\<rparr>)"
  using assms by (simp add: recordFailure_def tripCircuit_def Let_def)

theorem recordFailure_half_open_witness:
  "circuitBreakers (recordFailure halfOpenRegistry ''reports'' 50000 50001 50002) ''reports'' =
     Some \<lparr>state = OPEN, failures = 6, successes = 0, lastFailureTime = Some 50000,
           nextRetryTime = Some 80001\<rparr>
   \<and> services (recordFailure halfOpenRegistry ''reports'' 50000 50001 50002) ''reports'' =
     Some \<lparr>name = ''reports'', url = ''http://localhost:3007'', version = None,
           status = UNHEALTHY, lastCheck = 50002, consecutiveFailures = 6, metadata = None\<rparr>"
proof -
  let ?c = "\<lparr>state = HALF_OPEN, failures = 5, successes = 0, lastFailureTime = Some 1004,
             nextRetryTime = Some (31005 :: int)\<rparr>"
  have half: "state ?c = HALF_OPEN" by simp
  from recordFailure_half_open [OF halfOpenRegistry_service halfOpenRegistry_circuit half,
      of 50000 50001 50002]
  show ?thesis by (simp add: halfOpenRegistry_config)
qed

text \<open>
  C3, as the claim states it, fails: the half-open circuit reached by five failures and a
  \<open>getServiceUrl\<close> call past the retry time holds a failure count of 5, and after one more
  \<open>recordFailure\<close> neither the circuit's failure count nor the entry's
  \<open>consecutiveFailures\<close> is back at 0 (both are 6).
\<close>

theorem recordFailure_half_open_counterexample:
  "\<not> (\<exists>c' s'.
        circuitBreakers (recordFailure halfOpenRegistry ''reports'' 50000 50001 50002)
          ''reports'' = Some c'
      \<and> services (recordFailure halfOpenRegistry ''reports'' 50000 50001 50002)
          ''reports'' = Some s'
      \<and> state c' = OPEN
      \<and> nextRetryTime c' = Some (50001 + timeout (circuitConfig halfOpenRegistry))
      \<and> (failures c' = 0 \<or> consecutiveFailures s' = 0))"
  by (simp add: recordFailure_def tripCircuit_def Let_def halfOpenRegistry_circuit
      halfOpenRegistry_service halfOpenRegistry_config)

text \<open>
  C4, as the code has it. For a registered service whose circuit is open, a
  \<open>recordSuccess\<close> call leaves the circuit's state, \<open>lastFailureTime\<close> and \<open>nextRetryTime\<close>
  as they are, whether or not the retry time has come; it sets the failure count to 0,
  adds one to the success count, and sets the entry to healthy with no consecutive
  failures and \<open>lastCheck\<close> the clock reading.
\<close>

theorem recordSuccess_open:
  assumes "services reg n = Some s" and "circuitBreakers reg n = Some c"
    and "state c = OPEN"
  shows "circuitBreakers (recordSuccess reg n now) n =
           Some (c\<lparr>failures := 0, successes := successes c + 1\<rparr>)
       \<and> services (recordSuccess reg n now) n =
           Some (s\<lparr>status := HEALTHY, consecutiveFailures := 0, lastCheck := now\<rparr>)
       \<and> getCircuitState (recordSuccess reg n now) n = Some OPEN"
  using assms by (simp add: recordSuccess_def getCircuitState_def Let_def)

theorem recordSuccess_open_witness:
  "circuitBreakers (recordSuccess openRegistry ''reports'' 2000) ''reports'' =
     Some \<lparr>state = OPEN, failures = 0, successes = 1, lastFailureTime = Some 1004,
           nextRetryTime = Some 31005\<rparr>
   \<and> services (recordSuccess openRegistry ''reports'' 2000) ''reports'' =
     Some \<lparr>name = ''reports'', url = ''http://localhost:3007'', version = None,
           status = HEALTHY, lastCheck = 2000, consecutiveFailures = 0, metadata = None\<rparr>
   \<and> getCircuitState (recordSuccess openRegistry ''reports'' 2000) ''reports'' = Some OPEN"
proof -
  let ?c = "\<lparr>state = OPEN, failures = 5, successes = 0, lastFailureTime = Some 1004,
             nextRetryTime = Some (31005 :: int)\<rparr>"
  have opn: "state ?c = OPEN" by simp
  from recordSuccess_open [OF openRegistry_service openRegistry_circuit opn, of 2000]
  show ?thesis by simp
qed

text \<open>
  C4, as the claim states it, fails: on the circuit opened by five failures, with retry
  time 31005, a \<open>recordSuccess\<close> call at time 2000 changes the circuit's counters and the
  entry's status fields.
\<close>

theorem recordSuccess_open_counterexample:
  "map_option failures (circuitBreakers openRegistry ''reports'') = Some 5
   \<and> map_option failures
       (circuitBreakers (recordSuccess openRegistry ''reports'' 2000) ''reports'') = Some 0
   \<and> map_option successes (circuitBreakers openRegistry ''reports'') = Some 0
   \<and> map_option successes
       (circuitBreakers (recordSuccess openRegistry ''reports'' 2000) ''reports'') = Some 1
   \<and> map_option status (services openRegistry ''reports'') = Some UNHEALTHY
   \<and> map_option status
       (services (recordSuccess openRegistry ''reports'' 2000) ''reports'') = Some HEALTHY
   \<and> map_option consecutiveFailures (services openRegistry ''reports'') = Some 5
   \<and> map_option consecutiveFailures
       (services (recordSuccess openRegistry ''reports'' 2000) ''reports'') = Some 0"
  by (simp add: recordSuccess_def Let_def openRegistry_circuit openRegistry_service)

text \<open>
  C10. For a name that was never registered (it is a key of neither map),
  \<open>getServiceUrl\<close> returns no URL, \<open>getCircuitState\<close> returns no state, and
  \<open>getServiceUrl\<close>, \<open>recordSuccess\<close> and \<open>recordFailure\<close> return the registry as it was:
  no entry is created and nothing is raised (the model's operations are total and have
  no error result, as the source's have no \<open>throw\<close>).
\<close>

theorem unregistered_name_is_inert:
  assumes "services reg n = None" and "circuitBreakers reg n = None"
  shows "getServiceUrl reg n now = (None, reg)
       \<and> getCircuitState reg n = None
       \<and> recordSuccess reg n now = reg
       \<and> recordFailure reg n tFailure tTrip tCheck = reg"
  using assms
  by (simp add: getServiceUrl_def getCircuitState_def recordSuccess_def recordFailure_def)

theorem unregistered_name_is_inert_witness:
  "getServiceUrl openRegistry ''billing'' 2000 = (None, openRegistry)
   \<and> getCircuitState openRegistry ''billing'' = None
   \<and> recordSuccess openRegistry ''billing'' 2000 = openRegistry
   \<and> recordFailure openRegistry ''billing'' 2000 2001 2002 = openRegistry"
proof -
  have s: "services openRegistry ''billing'' = None"
    by (simp add: registry_example_defs)
  have c: "circuitBreakers openRegistry ''billing'' = None"
    by (simp add: registry_example_defs)
  from unregistered_name_is_inert [OF s c, of 2000 2000 2001 2002]
  show ?thesis .
qed

text \<open>
  In a half-open circuit successes accumulate: a \<open>recordSuccess\<close> call that brings
  the success count to \<open>successThreshold\<close> closes the circuit with both counters at 0;
  below the threshold the circuit stays half-open with the success count advanced and
  the failure count at 0.
\<close>

theorem recordSuccess_half_open:
  assumes "circuitBreakers reg n = Some c" and "state c = HALF_OPEN"
  shows "circuitBreakers (recordSuccess reg n now) n =
           Some (if successes c + 1 \<ge> successThreshold (circuitConfig reg)
                 then c\<lparr>state := CLOSED, failures := 0, successes := 0\<rparr>
                 else c\<lparr>failures := 0, successes := successes c + 1\<rparr>)"
  using assms by (simp add: recordSuccess_def Let_def split: option.splits)

theorem recordSuccess_half_open_witness:
  "getCircuitState (recordSuccess halfOpenRegistry ''reports'' 41000) ''reports''
     = Some HALF_OPEN
   \<and> circuitBreakers
        (recordSuccess (recordSuccess halfOpenRegistry ''reports'' 41000) ''reports'' 42000)
        ''reports'' =
       Some \<lparr>state = CLOSED, failures = 0, successes = 0, lastFailureTime = Some 1004,
             nextRetryTime = Some 31005\<rparr>
   \<and> fst (getServiceUrl
        (recordSuccess (recordSuccess halfOpenRegistry ''reports'' 41000) ''reports'' 42000)
        ''reports'' 43000) = Some ''http://localhost:3007''"
proof -
  let ?c = "\<lparr>state = HALF_OPEN, failures = 5, successes = 0, lastFailureTime = Some 1004,
             nextRetryTime = Some (31005 :: int)\<rparr>"
  let ?r1 = "recordSuccess halfOpenRegistry ''reports'' 41000"
  have half: "state ?c = HALF_OPEN" by simp
  from recordSuccess_half_open [OF halfOpenRegistry_circuit half, of 41000]
  have c1: "circuitBreakers ?r1 ''reports'' = Some (?c\<lparr>failures := 0, successes := 1\<rparr>)"
    by (simp add: halfOpenRegistry_config)
  have cfg1: "circuitConfig ?r1 = circuitConfig halfOpenRegistry"
    by (simp add: recordSuccess_def Let_def halfOpenRegistry_circuit halfOpenRegistry_service)
  have half1: "state (?c\<lparr>failures := 0, successes := 1\<rparr>) = HALF_OPEN" by simp
  from recordSuccess_half_open [OF c1 half1, of 42000]
  have c2: "circuitBreakers (recordSuccess ?r1 ''reports'' 42000) ''reports'' =
      Some \<lparr>state = CLOSED, failures = 0, successes = 0, lastFailureTime = Some 1004,
            nextRetryTime = Some 31005\<rparr>"
    by (simp add: cfg1 halfOpenRegistry_config)
  have s2: "map_option url (services (recordSuccess ?r1 ''reports'' 42000) ''reports'')
      = Some ''http://localhost:3007''"
    by (simp add: recordSuccess_def Let_def halfOpenRegistry_circuit halfOpenRegistry_service
        halfOpenRegistry_config)
  from c1 c2 s2 show ?thesis
    by (auto simp add: getCircuitState_def getServiceUrl_def split: option.splits)
qed

end
